theory Spec2Isabelle
  imports Complex_Main "HOL-Library.Word"
begin


section \<open>JavaScript strings\<close>

text \<open>
  A JavaScript string is modelled as a \<open>string\<close>: a list of 8-bit code units, read as the
  code points U+0000 to U+00FF (Latin-1). On these code points the built-in operations
  of the source behave as follows.
  \<^item> \<open>\s\<close> of a regular expression and \<open>String.prototype.trim\<close> use the same class of
    white space: TAB, LF, VT, FF, CR, SPACE and NBSP (U+00A0).
  \<^item> \<open>\w\<close> is \<open>[A-Za-z0-9_]\<close>.
  \<^item> \<open>toLowerCase\<close> maps \<open>A-Z\<close> to \<open>a-z\<close> and the capital letters U+00C0 to U+00DE
    (U+00D7, the multiplication sign, apart) to the letter 32 places further.
\<close>

definition isSpace :: "char \<Rightarrow> bool" where
  "isSpace c = (let n = (of_char c :: nat)
                in n = 9 \<or> n = 10 \<or> n = 11 \<or> n = 12 \<or> n = 13 \<or> n = 32 \<or> n = 160)"

definition isUpperAscii :: "char \<Rightarrow> bool" where
  "isUpperAscii c = (let n = (of_char c :: nat) in 65 \<le> n \<and> n \<le> 90)"

definition isLowerAscii :: "char \<Rightarrow> bool" where
  "isLowerAscii c = (let n = (of_char c :: nat) in 97 \<le> n \<and> n \<le> 122)"

definition isDigit :: "char \<Rightarrow> bool" where
  "isDigit c = (let n = (of_char c :: nat) in 48 \<le> n \<and> n \<le> 57)"

definition isAlpha :: "char \<Rightarrow> bool" where
  \<comment> \<open>the class \<open>[a-zA-Z]\<close>\<close>
  "isAlpha c = (isLowerAscii c \<or> isUpperAscii c)"

definition isWordChar :: "char \<Rightarrow> bool" where
  \<comment> \<open>the class \<open>\w\<close>\<close>
  "isWordChar c = (isAlpha c \<or> isDigit c \<or> c = CHR ''_'')"

definition toLowerChar :: "char \<Rightarrow> char" where
  "toLowerChar c =
     (let n = (of_char c :: nat)
      in if (65 \<le> n \<and> n \<le> 90) \<or> (192 \<le> n \<and> n \<le> 222 \<and> n \<noteq> 215)
         then char_of (n + 32) else c)"

definition toLowerCase :: "string \<Rightarrow> string" where
  "toLowerCase s = map toLowerChar s"

definition trimStart :: "string \<Rightarrow> string" where
  "trimStart s = dropWhile isSpace s"

fun trimEnd :: "string \<Rightarrow> string" where
  "trimEnd [] = []"
| "trimEnd (c # cs) = (let r = trimEnd cs in if r = [] \<and> isSpace c then [] else c # r)"

definition trim :: "string \<Rightarrow> string" where
  "trim s = trimEnd (trimStart s)"

section \<open>Text Normalizer\<close>

text \<open>
  \<^verbatim>\<open>
  function normalizeText(text) {
    return text
      .toLowerCase()
      .replace(/[.,\/#!$%\^&\*;:{}=\-_`~()]/g, "") // remove punctuation
      .replace(/\s{2,}/g, " ") // normalize spaces
      .trim();
  }
  \<close>
\<close>

definition isPunct :: "char \<Rightarrow> bool" where
  \<comment> \<open>the class of the first \<open>replace\<close>\<close>
  "isPunct c = (c \<in> set ''.,/#!$%^&*;:{}=-_`~()'')"

definition removePunctuation :: "string \<Rightarrow> string" where
  "removePunctuation s = filter (\<lambda>c. \<not> isPunct c) s"

text \<open>
  \<open>replace(/\s{2,}/g, " ")\<close>: every maximal run of two or more white-space characters
  becomes one SPACE; a white-space character standing alone is kept as it is.
\<close>

function normalizeSpaces :: "string \<Rightarrow> string" where
  "normalizeSpaces [] = []"
| "normalizeSpaces (c # cs) =
     (if isSpace c
      then (if takeWhile isSpace cs = [] then c else CHR '' '')
             # normalizeSpaces (dropWhile isSpace cs)
      else c # normalizeSpaces cs)"
  by pat_completeness auto
termination
  by (relation "measure length") (auto simp: less_Suc_eq_le length_dropWhile_le)

definition normalizeText :: "string \<Rightarrow> string" where
  "normalizeText text = trim (normalizeSpaces (removePunctuation (toLowerCase text)))"


text \<open>No two white-space characters stand next to each other.\<close>

fun noDouble :: "string \<Rightarrow> bool" where
  "noDouble [] = True"
| "noDouble (c # cs) = ((case cs of [] \<Rightarrow> True | d # _ \<Rightarrow> \<not> (isSpace c \<and> isSpace d)) \<and> noDouble cs)"

section \<open>Node.js buffers\<close>

text \<open>
  A \<open>Buffer\<close> is a list of bytes. The readers and writers of the source raise a
  \<open>RangeError\<close> when the offset leaves the buffer or the value leaves the range of the
  field; every such raise is a value \<open>Inl RangeError\<close> of the model.
\<close>

type_synonym byte = "8 word"

type_synonym Buffer = "byte list"

datatype error = RangeError

definition bindE :: "error + 'a \<Rightarrow> ('a \<Rightarrow> error + 'b) \<Rightarrow> error + 'b" where
  "bindE r f = (case r of Inl e \<Rightarrow> Inl e | Inr x \<Rightarrow> f x)"

definition alloc :: "nat \<Rightarrow> Buffer" where
  \<comment> \<open>\<open>Buffer.alloc(n)\<close>: \<open>n\<close> zero bytes\<close>
  "alloc n = replicate n 0"

definition slice :: "Buffer \<Rightarrow> nat \<Rightarrow> Buffer" where
  \<comment> \<open>\<open>buffer.slice(start)\<close> for a non-negative start\<close>
  "slice buffer start = drop start buffer"

definition readUInt16LE :: "Buffer \<Rightarrow> nat \<Rightarrow> error + nat" where
  "readUInt16LE buf offset =
     (if offset + 2 \<le> length buf
      then Inr (unat (buf ! offset) + unat (buf ! (offset + 1)) * 2 ^ 8)
      else Inl RangeError)"

definition readUInt32LE :: "Buffer \<Rightarrow> nat \<Rightarrow> error + nat" where
  "readUInt32LE buf offset =
     (if offset + 4 \<le> length buf
      then Inr (unat (buf ! offset) + unat (buf ! (offset + 1)) * 2 ^ 8
                + unat (buf ! (offset + 2)) * 2 ^ 16 + unat (buf ! (offset + 3)) * 2 ^ 24)
      else Inl RangeError)"

definition writeBytes :: "Buffer \<Rightarrow> byte list \<Rightarrow> nat \<Rightarrow> Buffer" where
  \<comment> \<open>the bytes overwrite the buffer from the offset on; what would pass its end is cut\<close>
  "writeBytes buf bs offset =
     take offset buf @ take (length buf - offset) bs @ drop (offset + length bs) buf"

definition asciiBytes :: "string \<Rightarrow> byte list" where
  "asciiBytes s = map (\<lambda>c. of_nat (of_char c)) s"

definition writeString :: "Buffer \<Rightarrow> string \<Rightarrow> nat \<Rightarrow> Buffer" where
  \<comment> \<open>\<open>buf.write(string, offset)\<close>\<close>
  "writeString buf s offset = writeBytes buf (asciiBytes s) offset"

text \<open>
  The writers take the JavaScript number as a rational: the source passes
  \<open>(sampleRate * numChannels * bitsPerSample) / 8\<close>, which need not be whole. Node checks
  the range on the number as it is, and the bytes stored are those of its integer part.
  (The products of the source stay below \<open>2^53\<close> whenever the range check passes, so
  double arithmetic and rational arithmetic agree on every branch.)
\<close>

definition writeUInt16LE :: "Buffer \<Rightarrow> rat \<Rightarrow> nat \<Rightarrow> error + Buffer" where
  "writeUInt16LE buf v offset =
     (if v > 65535 \<or> v < 0 then Inl RangeError
      else if offset + 2 \<le> length buf
      then (let n = nat \<lfloor>v\<rfloor>
            in Inr (writeBytes buf [of_nat n, of_nat (n div 2 ^ 8)] offset))
      else Inl RangeError)"

definition writeUInt32LE :: "Buffer \<Rightarrow> rat \<Rightarrow> nat \<Rightarrow> error + Buffer" where
  "writeUInt32LE buf v offset =
     (if v > 4294967295 \<or> v < 0 then Inl RangeError
      else if offset + 4 \<le> length buf
      then (let n = nat \<lfloor>v\<rfloor>
            in Inr (writeBytes buf
                      [of_nat n, of_nat (n div 2 ^ 8), of_nat (n div 2 ^ 16), of_nat (n div 2 ^ 24)]
                      offset))
      else Inl RangeError)"

section \<open>Audio Splicer\<close>

definition WAV_HEADER_SIZE :: nat where
  "WAV_HEADER_SIZE = 44"

definition pcmDataBuffers :: "Buffer list \<Rightarrow> Buffer list" where
  "pcmDataBuffers wavBuffers =
     map (\<lambda>buffer. if length buffer \<le> WAV_HEADER_SIZE then alloc 0
                    else slice buffer WAV_HEADER_SIZE) wavBuffers"

definition combinedPCM :: "Buffer list \<Rightarrow> Buffer" where
  "combinedPCM wavBuffers = concat (filter (\<lambda>b. length b > 0) (pcmDataBuffers wavBuffers))"

definition combineWavBuffers :: "Buffer list \<Rightarrow> error + Buffer" where
  "combineWavBuffers wavBuffers =
     (if length wavBuffers = 0 then Inr (alloc 0)
      else if length wavBuffers = 1 then Inr (wavBuffers ! 0)
      else
        let pcm = combinedPCM wavBuffers;
            firstBuffer = wavBuffers ! 0
        in
        bindE (readUInt16LE firstBuffer 22) (\<lambda>numChannels.
        bindE (readUInt32LE firstBuffer 24) (\<lambda>sampleRate.
        bindE (readUInt16LE firstBuffer 34) (\<lambda>bitsPerSample.
        let b0 = alloc (WAV_HEADER_SIZE + length pcm);
            b1 = writeString b0 ''RIFF'' 0
        in
        bindE (writeUInt32LE b1 (of_nat (36 + length pcm)) 4) (\<lambda>b2.
        let b3 = writeString b2 ''WAVE'' 8;
            b4 = writeString b3 ''fmt '' 12
        in
        bindE (writeUInt32LE b4 16 16) (\<lambda>b5.
        bindE (writeUInt16LE b5 1 20) (\<lambda>b6.
        bindE (writeUInt16LE b6 (of_nat numChannels) 22) (\<lambda>b7.
        bindE (writeUInt32LE b7 (of_nat sampleRate) 24) (\<lambda>b8.
        bindE (writeUInt32LE b8 (of_nat (sampleRate * numChannels * bitsPerSample) / 8) 28) (\<lambda>b9.
        bindE (writeUInt16LE b9 (of_nat (numChannels * bitsPerSample) / 8) 32) (\<lambda>b10.
        bindE (writeUInt16LE b10 (of_nat bitsPerSample) 34) (\<lambda>b11.
        let b12 = writeString b11 ''data'' 36
        in
        bindE (writeUInt32LE b12 (of_nat (length pcm)) 40) (\<lambda>b13.
        Inr (writeBytes b13 pcm WAV_HEADER_SIZE))))))))))))))"

text \<open>
  The header the splicer emits, written out: the little-endian bytes of the fields in the
  order of the canonical 44-byte layout.
\<close>

definition u16le :: "nat \<Rightarrow> byte list" where
  "u16le n = [of_nat n, of_nat (n div 2 ^ 8)]"

definition u32le :: "nat \<Rightarrow> byte list" where
  "u32le n = [of_nat n, of_nat (n div 2 ^ 8), of_nat (n div 2 ^ 16), of_nat (n div 2 ^ 24)]"

definition canonicalHeader :: "nat \<Rightarrow> nat \<Rightarrow> nat \<Rightarrow> nat \<Rightarrow> Buffer" where
  "canonicalHeader numChannels sampleRate bitsPerSample dataSize =
     asciiBytes ''RIFF'' @ u32le (36 + dataSize) @ asciiBytes ''WAVE''
     @ asciiBytes ''fmt '' @ u32le 16 @ u16le 1 @ u16le numChannels @ u32le sampleRate
     @ u32le (sampleRate * numChannels * bitsPerSample div 8)
     @ u16le (numChannels * bitsPerSample div 8) @ u16le bitsPerSample
     @ asciiBytes ''data'' @ u32le dataSize"

text \<open>
  A complete canonical header is present in a buffer: the four tags stand at their
  offsets, the \<open>fmt\<close> sub-chunk has size 16 and format tag 1 (PCM), and the two size fields
  agree with the length of the buffer.
\<close>

definition canonicalHeaderPresent :: "Buffer \<Rightarrow> bool" where
  "canonicalHeaderPresent b =
     (WAV_HEADER_SIZE \<le> length b
      \<and> take 4 b = asciiBytes ''RIFF''
      \<and> readUInt32LE b 4 = Inr (length b - 8)
      \<and> take 4 (drop 8 b) = asciiBytes ''WAVE''
      \<and> take 4 (drop 12 b) = asciiBytes ''fmt ''
      \<and> readUInt32LE b 16 = Inr 16
      \<and> readUInt16LE b 20 = Inr 1
      \<and> take 4 (drop 36 b) = asciiBytes ''data''
      \<and> readUInt32LE b 40 = Inr (length b - WAV_HEADER_SIZE))"

text \<open>
  Test data: a 46-byte fragment (stereo, 44100 Hz, 16 bits, two payload bytes) and a
  fragment cut after ten bytes.
\<close>

definition sampleWav :: Buffer where
  "sampleWav =
     [0x52, 0x49, 0x46, 0x46, 38, 0, 0, 0, 0x57, 0x41, 0x56, 0x45, 0x66, 0x6D, 0x74, 0x20,
      16, 0, 0, 0, 1, 0, 2, 0, 0x44, 0xAC, 0, 0, 0x10, 0xB1, 2, 0, 4, 0, 16, 0,
      0x64, 0x61, 0x74, 0x61, 2, 0, 0, 0, 7, 8]"

definition truncatedWav :: Buffer where
  "truncatedWav = [0x52, 0x49, 0x46, 0x46, 38, 0, 0, 0, 0x57, 0x41]"

section \<open>Trigger Detector: extraction\<close>

text \<open>
  \<open>indexOf\<close> and \<open>lastIndexOf\<close> return \<open>-1\<close> when the pattern does not occur, as in
  the source, so indices are integers. \<open>substring\<close> clamps both arguments to the string
  and swaps them when the first is the larger.
\<close>

definition startsWith :: "string \<Rightarrow> string \<Rightarrow> bool" where
  "startsWith s p = (take (length p) s = p)"

fun indexOf :: "string \<Rightarrow> string \<Rightarrow> int" where
  "indexOf [] p = (if p = [] then 0 else - 1)"
| "indexOf (c # cs) p =
     (if startsWith (c # cs) p then 0
      else (let i = indexOf cs p in if i = - 1 then - 1 else i + 1))"

fun lastIndexOf :: "string \<Rightarrow> string \<Rightarrow> int" where
  "lastIndexOf [] p = (if p = [] then 0 else - 1)"
| "lastIndexOf (c # cs) p =
     (let i = lastIndexOf cs p
      in if i \<noteq> - 1 then i + 1 else if startsWith (c # cs) p then 0 else - 1)"

definition includesStr :: "string \<Rightarrow> string \<Rightarrow> bool" where
  \<comment> \<open>\<open>s.includes(p)\<close>\<close>
  "includesStr s p = (indexOf s p \<noteq> - 1)"

definition substring :: "string \<Rightarrow> int \<Rightarrow> int \<Rightarrow> string" where
  "substring s a b =
     (let n = int (length s);
          a' = min (max a 0) n;
          b' = min (max b 0) n;
          lo = min a' b';
          hi = max a' b'
      in take (nat (hi - lo)) (drop (nat lo) s))"

definition substringFrom :: "string \<Rightarrow> int \<Rightarrow> string" where
  \<comment> \<open>\<open>s.substring(a)\<close>\<close>
  "substringFrom s a = substring s a (int (length s))"

definition stripLeadingLetter :: "string \<Rightarrow> string" where
  \<comment> \<open>\<open>replace(/^[a-zA-Z]\s+/, "")\<close>\<close>
  "stripLeadingLetter s =
     (case s of
        c # d # rest \<Rightarrow> if isAlpha c \<and> isSpace d then dropWhile isSpace rest else s
      | _ \<Rightarrow> s)"

definition orEmpty :: "string option \<Rightarrow> string" where
  \<comment> \<open>\<open>keyword || ""\<close>, for a keyword that is a string or \<open>undefined\<close>\<close>
  "orEmpty k = (case k of None \<Rightarrow> [] | Some s \<Rightarrow> s)"

text \<open>
  \<^verbatim>\<open>
  function extractTextBetweenKeywords(fullText, startKeyword, endKeyword) {
    if (!fullText || fullText.trim().length === 0) return "";
    const normalizedText = normalizeText(fullText);
    const normalizedStart = normalizeText(startKeyword || "");
    const normalizedEnd = normalizeText(endKeyword || "");
    const startIndex = normalizedStart ? normalizedText.indexOf(normalizedStart) : -1;
    const endIndex = normalizedEnd ? normalizedText.lastIndexOf(normalizedEnd) : -1;
    if (startIndex !== -1 && endIndex !== -1 && endIndex > startIndex &&
        endIndex <= startIndex + normalizedStart.length + 1) return "";
    if (startIndex !== -1 && (endIndex === -1 || endIndex <= startIndex)) {
      extracted = fullText.substring(startIndex + startKeyword.length).trim();
      return extracted.replace(/^[a-zA-Z]\s+/, "");
    }
    if (endIndex !== -1 && startIndex === -1) {
      extracted = fullText.substring(0, endIndex).trim();
      return extracted;
    }
    if (startIndex !== -1 && endIndex > startIndex) {
      extracted = fullText.substring(startIndex + startKeyword.length, endIndex).trim();
      return extracted.replace(/^[a-zA-Z]\s+/, "");
    }
    return fullText.trim();
  }
  \<close>
  The indices are those of the normalized text; the slices are taken from the original
  text at these same numbers. \<open>startKeyword.length\<close> is read only where \<open>startIndex\<close> is
  not \<open>-1\<close>, so where the keyword is a non-empty string.
\<close>

definition extractTextBetweenKeywords :: "string \<Rightarrow> string option \<Rightarrow> string option \<Rightarrow> string" where
  "extractTextBetweenKeywords fullText startKeyword endKeyword =
     (if fullText = [] \<or> length (trim fullText) = 0 then []
      else
        let normalizedText = normalizeText fullText;
            normalizedStart = normalizeText (orEmpty startKeyword);
            normalizedEnd = normalizeText (orEmpty endKeyword);
            startIndex = (if normalizedStart \<noteq> [] then indexOf normalizedText normalizedStart
                          else - 1);
            endIndex = (if normalizedEnd \<noteq> [] then lastIndexOf normalizedText normalizedEnd
                        else - 1)
        in
        if startIndex \<noteq> - 1 \<and> endIndex \<noteq> - 1 \<and> endIndex > startIndex
           \<and> endIndex \<le> startIndex + int (length normalizedStart) + 1
        then []
        else if startIndex \<noteq> - 1 \<and> (endIndex = - 1 \<or> endIndex \<le> startIndex)
        then stripLeadingLetter
               (trim (substringFrom fullText (startIndex + int (length (orEmpty startKeyword)))))
        else if endIndex \<noteq> - 1 \<and> startIndex = - 1
        then trim (substring fullText 0 endIndex)
        else if startIndex \<noteq> - 1 \<and> endIndex > startIndex
        then stripLeadingLetter
               (trim (substring fullText (startIndex + int (length (orEmpty startKeyword))) endIndex))
        else trim fullText)"

section \<open>Sessions, connections and messages\<close>

text \<open>
  The source keeps four global tables keyed by session id; the model passes them as one
  record, together with what a handler sends and starts: the messages given to a
  connection's \<open>send\<close>, in order, and the calls of \<open>processDiarization\<close> that are started
  and not awaited. The source's role names are \<open>magician\<close> (the performer of the
  specification) and \<open>spectator\<close> (the observer). Timestamps are left out of the messages.

  The tables of the source are plain objects, so a lookup also finds what
  \<open>Object.prototype\<close> defines. The tables of the model are partial maps: they describe the
  source for session ids that are not names of inherited properties (\<open>constructor\<close>,
  \<open>toString\<close>, \<open>__proto__\<close> and the like); for such an id the source finds an inherited
  value where the model finds no entry.
\<close>

datatype role = magician | spectator

record connection =
  readyState :: nat

record session =
  magicianConn :: "connection option"
  spectatorConn :: "connection option"

datatype message =
    Transcript string
  | MagicTranscript string
  | KeywordDetected string string
  | SummaryMsg "string option" "string option"
  | SummarizeComplete "string option" "string option"
  | DiarizationError string string
  | NoRecordingError string string

record SessionAudioBuffer =
  chunks :: "Buffer list"
  isRecording :: bool
  startKeyword :: "string option"
  endKeyword :: "string option"
  language :: string

record job =
  jobAudio :: Buffer
  jobSessionId :: string
  jobLanguage :: string
  jobStartKeyword :: "string option"
  jobEndKeyword :: "string option"

record state =
  sessions :: "string \<rightharpoonup> session"
  audioChunks :: "string \<rightharpoonup> SessionAudioBuffer"
  sessionTopics :: "string \<rightharpoonup> string"
  sent :: "(string \<times> role \<times> message) list"
  started :: "job list"

definition connOf :: "state \<Rightarrow> string \<Rightarrow> role \<Rightarrow> connection option" where
  "connOf st sessionId r =
     (case sessions st sessionId of
        None \<Rightarrow> None
      | Some s \<Rightarrow> (case r of magician \<Rightarrow> magicianConn s | spectator \<Rightarrow> spectatorConn s))"

definition sendTo :: "role \<Rightarrow> string \<Rightarrow> message \<Rightarrow> state \<Rightarrow> state" where
  \<comment> \<open>\<open>if (sessions[sessionId]?.role?.readyState === 1) sessions[sessionId].role.send(...)\<close>\<close>
  "sendTo r sessionId m st =
     (case connOf st sessionId r of
        None \<Rightarrow> st
      | Some c \<Rightarrow> if readyState c = 1 then st\<lparr>sent := sent st @ [(sessionId, r, m)]\<rparr> else st)"

definition truthy :: "string option \<Rightarrow> bool" where
  \<comment> \<open>a keyword that is a string or \<open>undefined\<close> is truthy when it is a non-empty string\<close>
  "truthy k = (case k of None \<Rightarrow> False | Some s \<Rightarrow> s \<noteq> [])"

definition orElse :: "string option \<Rightarrow> string option \<Rightarrow> string option" where
  \<comment> \<open>\<open>a || b\<close>\<close>
  "orElse a b = (if truthy a then a else b)"

definition orElseStr :: "string \<Rightarrow> string \<Rightarrow> string" where
  \<comment> \<open>\<open>a || b\<close> on strings\<close>
  "orElseStr a b = (if a \<noteq> [] then a else b)"

definition setBuffer :: "string \<Rightarrow> SessionAudioBuffer \<Rightarrow> state \<Rightarrow> state" where
  "setBuffer sessionId b st = st\<lparr>audioChunks := (audioChunks st)(sessionId \<mapsto> b)\<rparr>"

section \<open>Transcription Service results\<close>

text \<open>
  The Transcription Service is outside the program. A call throws, or returns an error
  with no result, or returns the channels with their alternatives; a word carries its
  text, an optional punctuated form and an optional speaker index.
\<close>

record word =
  wordText :: string
  punctuated_word :: "string option"
  speaker :: "nat option"

record alternative =
  transcript :: "string option"
  words :: "word list option"

record channel =
  alternatives :: "alternative list"

datatype transcription = Throws | Failed | Channels "channel list"

definition firstTranscript :: "transcription \<Rightarrow> string" where
  \<comment> \<open>\<open>result?.results?.channels?.[0]?.alternatives?.[0]?.transcript || ""\<close>\<close>
  "firstTranscript r =
     (case r of
        Channels (c # _) \<Rightarrow>
          (case alternatives c of a # _ \<Rightarrow> orEmpty (transcript a) | [] \<Rightarrow> [])
      | _ \<Rightarrow> [])"

section \<open>External services\<close>

text \<open>
  The four services are parameters of the model. The Summarization Service throws or
  returns an optional summary text and an optional topic; the Translation Service throws
  or returns a result whose text may be missing; the AI Topic Service throws or returns
  the content of the first choice.
\<close>

datatype analysis = AnalyzeThrows | Analysis "string option" "string option"

datatype translation = TranslateThrows | Translated "string option"

record services =
  transcribeFile :: "Buffer \<Rightarrow> string \<Rightarrow> bool \<Rightarrow> transcription"
  analyzeText :: "string \<Rightarrow> string \<Rightarrow> analysis"
  translate :: "string \<Rightarrow> string \<Rightarrow> translation"
  chatCompletion :: "string \<Rightarrow> string option"

section \<open>Session Audio Buffer: the fragment-submission handler\<close>

record chunkRequest =
  reqSessionId :: string
  reqStartKeyword :: "string option"
  reqEndKeyword :: "string option"
  reqIsMagicActive :: "string option"
  reqLanguage :: "string option"
  reqFile :: "Buffer option"

datatype response =
    Status400
  | Status500
  | Ok string bool "string option"

definition withDefault :: "string option \<Rightarrow> string \<Rightarrow> string" where
  \<comment> \<open>a destructuring default: \<open>language = "en"\<close> applies to \<open>undefined\<close> alone\<close>
  "withDefault v d = (case v of None \<Rightarrow> d | Some s \<Rightarrow> s)"

definition hasKeyword :: "string \<Rightarrow> string option \<Rightarrow> bool" where
  \<comment> \<open>\<open>normalizedKeyword && normalizedTranscript.includes(normalizedKeyword)\<close>, with
      \<open>normalizedKeyword = keyword ? normalizeText(keyword) : ""\<close>\<close>
  "hasKeyword transcriptText keyword =
     (let normalizedTranscript = normalizeText transcriptText;
          normalizedKeyword = (if truthy keyword then normalizeText (orEmpty keyword) else [])
      in normalizedKeyword \<noteq> [] \<and> includesStr normalizedTranscript normalizedKeyword)"

definition initBuffer :: "string option \<Rightarrow> string option \<Rightarrow> string \<Rightarrow> SessionAudioBuffer" where
  "initBuffer sk ek lang =
     \<lparr>chunks = [], isRecording = False, startKeyword = sk, endKeyword = ek, language = lang\<rparr>"

definition refreshBuffer :: "chunkRequest \<Rightarrow> string \<Rightarrow> state \<Rightarrow> SessionAudioBuffer" where
  \<comment> \<open>lines 609 to 625: create the session's buffer if there is none, then overwrite the
      phrases and the language with the request's values where these are non-empty\<close>
  "refreshBuffer req lang st =
     (let b = (case audioChunks st (reqSessionId req) of
                 None \<Rightarrow> initBuffer (reqStartKeyword req) (reqEndKeyword req) lang
               | Some b \<Rightarrow> b)
      in b\<lparr>startKeyword := orElse (reqStartKeyword req) (startKeyword b),
           endKeyword := orElse (reqEndKeyword req) (endKeyword b),
           language := orElseStr lang (language b)\<rparr>)"

definition startJob :: "Buffer \<Rightarrow> string \<Rightarrow> string \<Rightarrow> SessionAudioBuffer \<Rightarrow> state \<Rightarrow> state" where
  \<comment> \<open>\<open>processDiarization(combinedAudio, sessionId, audioChunks[sessionId].language || language,
      audioChunks[sessionId].startKeyword, audioChunks[sessionId].endKeyword)\<close>, not awaited\<close>
  "startJob combinedAudio sessionId lang b st =
     st\<lparr>started := started st @
          [\<lparr>jobAudio = combinedAudio, jobSessionId = sessionId,
            jobLanguage = orElseStr (language b) lang,
            jobStartKeyword = startKeyword b, jobEndKeyword = endKeyword b\<rparr>]\<rparr>"

definition processAudioChunk :: "services \<Rightarrow> chunkRequest \<Rightarrow> state \<Rightarrow> response \<times> state" where
  "processAudioChunk sv req st =
     (case reqFile req of
        None \<Rightarrow> (Status400, st)
      | Some audioBuffer \<Rightarrow>
          let sessionId = reqSessionId req;
              lang = withDefault (reqLanguage req) ''en''
          in
          (case transcribeFile sv audioBuffer lang False of
             Throws \<Rightarrow> (Status500, st)
           | r \<Rightarrow>
               let transcriptText = firstTranscript r;
                   b1 = refreshBuffer req lang st;
                   st1 = sendTo magician sessionId (Transcript transcriptText)
                           (setBuffer sessionId b1 st);
                   hasStartKeyword = hasKeyword transcriptText (reqStartKeyword req);
                   hasEndKeyword = hasKeyword transcriptText (reqEndKeyword req)
               in
               if hasStartKeyword \<and> reqIsMagicActive req = Some ''false''
               then
                 let b2 = b1\<lparr>chunks := [audioBuffer], isRecording := True\<rparr>;
                     st2 = sendTo magician sessionId (KeywordDetected ''start'' transcriptText)
                             (setBuffer sessionId b2 st1)
                 in (Ok transcriptText True (Some ''start''), st2)
               else
                 let b2 = (if isRecording b1 \<and> \<not> hasEndKeyword
                           then b1\<lparr>chunks := chunks b1 @ [audioBuffer]\<rparr> else b1);
                     st2 = setBuffer sessionId b2 st1
                 in
                 if hasEndKeyword \<and> reqIsMagicActive req = Some ''true''
                 then
                   let b3 = b2\<lparr>isRecording := False, chunks := chunks b2 @ [audioBuffer]\<rparr>;
                       st3 = sendTo magician sessionId (KeywordDetected ''end'' transcriptText)
                               (setBuffer sessionId b3 st2)
                   in
                   if length (chunks b3) > 0
                   then
                     (case combineWavBuffers (chunks b3) of
                        Inl e \<Rightarrow> (Status500, st3)
                      | Inr combinedAudio \<Rightarrow>
                          (Ok transcriptText True (Some ''end''),
                           setBuffer sessionId (b3\<lparr>chunks := []\<rparr>)
                             (startJob combinedAudio sessionId lang b3 st3)))
                   else
                     (Ok transcriptText True (Some ''end''),
                      sendTo magician sessionId
                        (NoRecordingError ''no_chunks_captured''
                           ''No audio captured during magic. Recording was too short or silent.'')
                        st3)
                 else
                   let st3 = (if reqIsMagicActive req = Some ''true'' \<and> transcriptText \<noteq> []
                              then sendTo spectator sessionId (Transcript transcriptText) st2
                              else st2)
                   in (Ok transcriptText False None, st3)))"

section \<open>Session Audio Buffer: the control messages\<close>

record manualStartMsg =
  msSessionId :: string
  msStartKeyword :: "string option"
  msEndKeyword :: "string option"
  msLanguage :: "string option"

record manualEndMsg =
  meSessionId :: string
  meLanguage :: "string option"

definition manualStart :: "manualStartMsg \<Rightarrow> state \<Rightarrow> state" where
  "manualStart m st =
     (let sessionId = msSessionId m;
          lang = withDefault (msLanguage m) ''en'';
          b1 = (case audioChunks st sessionId of
                  None \<Rightarrow> initBuffer (msStartKeyword m) (msEndKeyword m) lang
                | Some b \<Rightarrow> b\<lparr>startKeyword := msStartKeyword m, endKeyword := msEndKeyword m,
                               language := lang\<rparr>);
          b2 = b1\<lparr>chunks := [], isRecording := True\<rparr>
      in sendTo magician sessionId (KeywordDetected ''start'' ''[Manual Start]'')
           (setBuffer sessionId b2 st))"

definition manualEnd :: "manualEndMsg \<Rightarrow> state \<Rightarrow> state" where
  "manualEnd m st =
     (let sessionId = meSessionId m;
          lang = withDefault (meLanguage m) ''en''
      in
      case audioChunks st sessionId of
        None \<Rightarrow>
          sendTo magician sessionId
            (NoRecordingError ''magic_not_started''
               ''Magic was never started. Please start magic before stopping.'') st
      | Some b \<Rightarrow>
          if length (chunks b) > 0
          then
            let b1 = b\<lparr>isRecording := False\<rparr>;
                st1 = setBuffer sessionId b1 st
            in
            (case combineWavBuffers (chunks b1) of
               Inl e \<Rightarrow> st1
             | Inr combinedAudio \<Rightarrow>
                 setBuffer sessionId (b1\<lparr>chunks := []\<rparr>)
                   (startJob combinedAudio sessionId lang b1 st1))
          else
            let wasRecording = isRecording b
            in sendTo magician sessionId
                 (if wasRecording
                  then NoRecordingError ''no_chunks_captured''
                         ''No audio captured during magic. Recording was too short or silent.''
                  else NoRecordingError ''magic_not_started''
                         ''Magic was never started. Please start magic before stopping.'')
                 st)"

section \<open>Splitting and joining\<close>

text \<open>
  \<open>split(/\s+/)\<close> cuts at every maximal run of white space; a run at the start or at
  the end of the string leaves an empty piece there, and the empty string gives one
  empty piece. \<open>split(' ')\<close> cuts at every single SPACE.
\<close>

fun splitWsAcc :: "string \<Rightarrow> bool \<Rightarrow> string \<Rightarrow> string list" where
  \<comment> \<open>the piece read so far; whether the last character was white space; the rest\<close>
  "splitWsAcc cur inRun [] = [cur]"
| "splitWsAcc cur inRun (c # cs) =
     (if isSpace c
      then (if inRun then splitWsAcc cur True cs else cur # splitWsAcc [] True cs)
      else splitWsAcc (cur @ [c]) False cs)"

definition splitWs :: "string \<Rightarrow> string list" where
  "splitWs s = splitWsAcc [] False s"

fun splitOnSpace :: "string \<Rightarrow> string \<Rightarrow> string list" where
  "splitOnSpace cur [] = [cur]"
| "splitOnSpace cur (c # cs) =
     (if c = CHR '' '' then cur # splitOnSpace [] cs else splitOnSpace (cur @ [c]) cs)"

fun joinWith :: "string \<Rightarrow> string list \<Rightarrow> string" where
  "joinWith sep [] = []"
| "joinWith sep [x] = x"
| "joinWith sep (x # y # ys) = x @ sep @ joinWith sep (y # ys)"

section \<open>Diarization Pipeline: the helpers around the services\<close>

definition blank :: "string \<Rightarrow> bool" where
  \<comment> \<open>\<open>!text || text.trim().length === 0\<close>\<close>
  "blank text = (text = [] \<or> length (trim text) = 0)"

definition summarizeTextWithDeepgram :: "services \<Rightarrow> string \<Rightarrow> string \<Rightarrow> string \<times> string option" where
  "summarizeTextWithDeepgram sv text lang =
     (case analyzeText sv text lang of
        AnalyzeThrows \<Rightarrow> (''Error summarizing.'', None)
      | Analysis s t \<Rightarrow>
          (orElseStr (orEmpty s) ''No summary available.'', if truthy t then t else None))"

definition translateText :: "services \<Rightarrow> string \<Rightarrow> string \<Rightarrow> string option" where
  \<comment> \<open>the result is \<open>None\<close> where the service's result carries no text\<close>
  "translateText sv text targetLanguage =
     (if blank text then Some text
      else (case translate sv text targetLanguage of
              TranslateThrows \<Rightarrow> Some text
            | Translated r \<Rightarrow> r))"

definition extractExactTopic :: "services \<Rightarrow> string \<Rightarrow> string" where
  "extractExactTopic sv text =
     (if blank text then []
      else (case chatCompletion sv text of
              Some content \<Rightarrow> trim content
            | None \<Rightarrow>
                let ws = filter (\<lambda>w. length w > 3) (splitWs text)
                in orElseStr (joinWith '' '' (take 3 ws)) (substring text 0 20)))"

section \<open>Transcript Selector\<close>

type_synonym speakers = "nat \<rightharpoonup> string"

definition addWord :: "speakers \<Rightarrow> word \<Rightarrow> speakers" where
  "addWord sp w =
     (let k = (case speaker w of None \<Rightarrow> 0 | Some n \<Rightarrow> n);
          cur = (case sp k of None \<Rightarrow> [] | Some t \<Rightarrow> t)
      in sp(k \<mapsto> cur @ orElseStr (orEmpty (punctuated_word w)) (wordText w) @ '' ''))"

definition addAlternative :: "string \<times> speakers \<Rightarrow> alternative \<Rightarrow> string \<times> speakers" where
  "addAlternative acc alt =
     (let fullTranscript = (if truthy (transcript alt)
                            then fst acc @ orEmpty (transcript alt) @ '' '' else fst acc);
          sp = (case words alt of
                  None \<Rightarrow> snd acc
                | Some ws \<Rightarrow> if length ws > 0 then foldl addWord (snd acc) ws else snd acc)
      in (fullTranscript, sp))"

definition collectSpeakers :: "channel list \<Rightarrow> string \<times> speakers" where
  "collectSpeakers channels =
     foldl (\<lambda>acc ch. foldl addAlternative acc (alternatives ch)) ([], Map.empty) channels"

definition selectTranscript :: "channel list \<Rightarrow> string option" where
  \<comment> \<open>speaker 0 if it has text, else the full transcript, else nothing\<close>
  "selectTranscript channels =
     (let (fullTranscript, sp) = collectSpeakers channels
      in if (case sp 0 of None \<Rightarrow> False | Some t \<Rightarrow> t \<noteq> [] \<and> length (trim t) > 0)
         then map_option trim (sp 0)
         else if length (trim fullTranscript) > 0 then Some (trim fullTranscript)
         else None)"

section \<open>Diarization Pipeline\<close>

text \<open>
  The local variables of the second half of \<open>processDiarization\<close> (lines 450 to 507),
  updated in the order of the source. \<open>topic\<close> and \<open>extractedTopic\<close> start as \<open>null\<close>.
\<close>

record locals =
  summary :: "string option"
  topic :: "string option"
  extractedTopic :: "string option"
  extractedSummary :: string

definition languageBranch :: "services \<Rightarrow> string \<Rightarrow> string \<Rightarrow> locals \<Rightarrow> locals" where
  \<comment> \<open>lines 459 to 496\<close>
  "languageBranch sv lang filteredText l =
     (if startsWith (toLowerCase lang) ''en''
      then
        let dgResult = summarizeTextWithDeepgram sv filteredText lang;
            l1 = l\<lparr>summary := Some (fst dgResult)\<rparr>
        in l1\<lparr>topic := Some (extractExactTopic sv filteredText)\<rparr>
      else
        (case translateText sv filteredText ''en'' of
           None \<Rightarrow>
             \<comment> \<open>\<open>translatedTranscript.substring\<close> raises a TypeError: the \<open>catch\<close> block\<close>
             l\<lparr>summary := Some filteredText,
               topic := Some (joinWith '' '' (take 4 (splitOnSpace [] filteredText)))\<rparr>
         | Some translatedTranscript \<Rightarrow>
             let dgResult = summarizeTextWithDeepgram sv translatedTranscript ''en'';
                 l1 = l\<lparr>summary := translateText sv (fst dgResult) lang\<rparr>;
                 englishTopic = extractExactTopic sv translatedTranscript
             in l1\<lparr>topic := translateText sv englishTopic lang\<rparr>))"

definition topicMissing :: "string option \<Rightarrow> bool" where
  \<comment> \<open>\<open>!t || t === "null" || t.trim().length === 0 || t === "unknown topic"\<close>\<close>
  "topicMissing t =
     (case t of
        None \<Rightarrow> True
      | Some s \<Rightarrow> s = [] \<or> s = ''null'' \<or> length (trim s) = 0 \<or> s = ''unknown topic'')"

definition fallbackTopic :: "string \<Rightarrow> string" where
  \<comment> \<open>\<open>summaryWords.slice(0, 2).join(" ") || "speech topic"\<close>\<close>
  "fallbackTopic s =
     (let summaryWords = filter (\<lambda>w. length w > 2) (splitWs s)
      in orElseStr (joinWith '' '' (take 2 summaryWords)) ''speech topic'')"

definition finalFallback :: "locals \<Rightarrow> locals" where
  \<comment> \<open>lines 498 to 507: the test reads \<open>extractedTopic\<close> and \<open>extractedSummary\<close>, and the
      two assignments that follow overwrite \<open>summary\<close> and \<open>topic\<close>\<close>
  "finalFallback l =
     (let l1 = (if topicMissing (extractedTopic l)
                then l\<lparr>extractedTopic := Some (fallbackTopic (extractedSummary l))\<rparr> else l);
          l2 = l1\<lparr>summary := Some (extractedSummary l1)\<rparr>
      in l2\<lparr>topic := extractedTopic l2\<rparr>)"

definition deliver :: "string \<Rightarrow> locals \<Rightarrow> state \<Rightarrow> state" where
  \<comment> \<open>lines 513 to 538\<close>
  "deliver sessionId l st =
     (let st1 = sendTo spectator sessionId (SummaryMsg (summary l) (topic l)) st;
          st2 = st1\<lparr>sessionTopics := (sessionTopics st1)(sessionId := topic l)\<rparr>
      in sendTo magician sessionId (SummarizeComplete (summary l) (topic l)) st2)"

definition cleanText :: "string \<Rightarrow> string" where
  \<comment> \<open>\<open>filteredText.replace(/[^\w\s]/g, "").trim()\<close>\<close>
  "cleanText s = trim (filter (\<lambda>c. isWordChar c \<or> isSpace c) s)"

definition processDiarization ::
  "services \<Rightarrow> Buffer \<Rightarrow> string \<Rightarrow> string \<Rightarrow> string option \<Rightarrow> string option \<Rightarrow> state \<Rightarrow> state" where
  "processDiarization sv audioBuffer sessionId lang startKw endKw st =
     (case transcribeFile sv audioBuffer lang True of
        Throws \<Rightarrow>
          sendTo magician sessionId
            (DiarizationError ''processing_error'' ''Error processing audio. Please try again.'') st
      | Failed \<Rightarrow>
          sendTo magician sessionId
            (DiarizationError ''deepgram_error'' ''Transcription failed. Please try again.'') st
      | Channels channels \<Rightarrow>
          (case selectTranscript channels of
             None \<Rightarrow>
               sendTo magician sessionId
                 (DiarizationError ''no_speaker_detected''
                    ''No speech detected. Please speak louder or try again.'') st
           | Some transcriptToProcess \<Rightarrow>
               let st1 = sendTo magician sessionId (MagicTranscript (trim transcriptToProcess)) st;
                   filteredText = extractTextBetweenKeywords transcriptToProcess startKw endKw;
                   cleanFilteredText = cleanText filteredText
               in
               if cleanFilteredText = [] \<or> length cleanFilteredText < 2
               then
                 sendTo magician sessionId
                   (NoRecordingError ''text_too_short''
                      ''No meaningful speech detected. Please speak at least 2 characters of text.'')
                   st1
               else
                 let l0 = \<lparr>summary = Some filteredText, topic = None,
                           extractedTopic = None, extractedSummary = filteredText\<rparr>;
                     l1 = languageBranch sv lang filteredText l0;
                     l2 = finalFallback l1
                 in deliver sessionId l2 st1))"

text \<open>Test data: a session with both participants connected, and nothing else.\<close>

definition openSession :: session where
  "openSession = \<lparr>magicianConn = Some \<lparr>readyState = 1\<rparr>, spectatorConn = Some \<lparr>readyState = 1\<rparr>\<rparr>"

definition initialState :: state where
  "initialState =
     \<lparr>sessions = [''s1'' \<mapsto> openSession], audioChunks = Map.empty, sessionTopics = Map.empty,
      sent = [], started = []\<rparr>"

text \<open>
  Test data: services that answer like a recording of the spoken sentence
  ``Magic word an apple pie recipe magic stop'' for the fragment \<open>sampleWav\<close> and like
  ``That was all magic stop'' for every other fragment, with a summary and a topic of
  their own for every text.
\<close>

definition heard :: "string \<Rightarrow> transcription" where
  "heard t = Channels [\<lparr>alternatives = [\<lparr>transcript = Some t, words = None\<rparr>]\<rparr>]"

definition exampleServices :: services where
  "exampleServices =
     \<lparr>transcribeFile = (\<lambda>audio lang diarize.
         if audio = sampleWav then heard ''Magic word an apple pie recipe magic stop''
         else heard ''That was all magic stop''),
      analyzeText = (\<lambda>text lang. Analysis (Some ''A recipe for apple pie.'') None),
      translate = (\<lambda>text lang. TranslateThrows),
      chatCompletion = (\<lambda>text. Some ''baking'')\<rparr>"

definition exampleRequest :: "Buffer \<Rightarrow> string \<Rightarrow> chunkRequest" where
  "exampleRequest audio active =
     \<lparr>reqSessionId = ''s1'', reqStartKeyword = Some ''magic word'',
      reqEndKeyword = Some ''magic stop'', reqIsMagicActive = Some active,
      reqLanguage = None, reqFile = Some audio\<rparr>"

definition exampleStart :: manualStartMsg where
  "exampleStart =
     \<lparr>msSessionId = ''s1'', msStartKeyword = Some ''magic word'',
      msEndKeyword = Some ''magic stop'', msLanguage = None\<rparr>"

definition exampleEnd :: manualEndMsg where
  "exampleEnd = \<lparr>meSessionId = ''s1'', meLanguage = None\<rparr>"

text \<open>
  The \<open>{summary, topic}\<close> pairs of the result messages in a list of sent messages, and
  the messages a run has added to those sent before it.
\<close>

fun deliveredResults :: "(string \<times> role \<times> message) list \<Rightarrow> (string option \<times> string option) list" where
  "deliveredResults [] = []"
| "deliveredResults ((sid, r, SummaryMsg s t) # ms) = (s, t) # deliveredResults ms"
| "deliveredResults ((sid, r, SummarizeComplete s t) # ms) = (s, t) # deliveredResults ms"
| "deliveredResults (m # ms) = deliveredResults ms"

definition newMessages :: "state \<Rightarrow> state \<Rightarrow> (string \<times> role \<times> message) list" where
  "newMessages st st' = drop (length (sent st)) (sent st')"

text \<open>Test data: the session is recording and holds one fragment.\<close>

definition recordingBuffer :: SessionAudioBuffer where
  "recordingBuffer =
     \<lparr>chunks = [sampleWav], isRecording = True, startKeyword = Some ''magic word'',
      endKeyword = Some ''magic stop'', language = ''en''\<rparr>"

definition recordingState :: state where
  "recordingState = setBuffer ''s1'' recordingBuffer initialState"

section \<open>Topic Extractor: the weighted frequency strategy\<close>

definition STOP_WORDS :: "string list" where
  "STOP_WORDS =
     [''i'', ''me'', ''my'', ''myself'', ''we'', ''our'', ''ours'', ''ourselves'', ''you'', ''your'',
      ''yours'', ''yourself'', ''yourselves'', ''he'', ''him'', ''his'', ''himself'', ''she'', ''her'',
      ''hers'', ''herself'', ''it'', ''its'', ''itself'', ''they'', ''them'', ''their'', ''theirs'',
      ''themselves'', ''what'', ''which'', ''who'', ''whom'', ''this'', ''that'', ''these'', ''those'',
      ''am'', ''is'', ''are'', ''was'', ''were'', ''be'', ''been'', ''being'', ''have'', ''has'', ''had'',
      ''having'', ''do'', ''does'', ''did'', ''doing'', ''a'', ''an'', ''the'', ''and'', ''but'', ''if'',
      ''or'', ''because'', ''as'', ''until'', ''while'', ''of'', ''at'', ''by'', ''for'', ''with'',
      ''about'', ''against'', ''between'', ''into'', ''through'', ''during'', ''before'', ''after'',
      ''above'', ''below'', ''up'', ''down'', ''in'', ''out'', ''on'', ''off'', ''over'', ''under'',
      ''again'', ''further'', ''then'', ''once'', ''here'', ''there'', ''when'', ''where'', ''why'',
      ''how'', ''all'', ''any'', ''both'', ''each'', ''few'', ''more'', ''most'', ''other'', ''some'',
      ''such'', ''no'', ''nor'', ''not'', ''only'', ''own'', ''same'', ''so'', ''than'', ''too'', ''very'',
      ''s'', ''t'', ''can'', ''will'', ''just'', ''don'', ''should'', ''now'', ''yes'']"

definition keepWord :: "string \<Rightarrow> bool" where
  \<comment> \<open>\<open>word.length > 2 && !STOP_WORDS.has(word)\<close>\<close>
  "keepWord w = (length w > 2 \<and> w \<notin> set STOP_WORDS)"

definition frequencyWords :: "string \<Rightarrow> string list" where
  \<comment> \<open>\<open>text.toLowerCase().replace(/[^\w\s]/g, ' ').split(/\s+/).filter(...)\<close>\<close>
  "frequencyWords text =
     filter keepWord
       (splitWs (map (\<lambda>c. if isWordChar c \<or> isSpace c then c else CHR '' '') (toLowerCase text)))"

text \<open>
  \<open>wordCount\<close> is a plain object: the model keeps its own properties as an association
  list in insertion order. \<open>wordCount[word] || 0\<close> reads through the prototype: for the
  two lower-case names that \<open>Object.prototype\<close> defines, \<open>constructor\<close> and \<open>__proto__\<close>,
  it yields an object, the sum is a string, and the word never gets a number that passes
  \<open>count >= 2\<close>; the model leaves these two words out of the table.
\<close>

definition inheritedName :: "string \<Rightarrow> bool" where
  "inheritedName w = (w = ''constructor'' \<or> w = ''__proto__'')"

fun addCount :: "(string \<times> nat) list \<Rightarrow> string \<Rightarrow> nat \<Rightarrow> (string \<times> nat) list" where
  "addCount [] w n = [(w, n)]"
| "addCount ((k, c) # rest) w n =
     (if k = w then (k, c + n) # rest else (k, c) # addCount rest w n)"

definition bump :: "nat \<Rightarrow> (string \<times> nat) list \<Rightarrow> string \<Rightarrow> (string \<times> nat) list" where
  \<comment> \<open>\<open>wordCount[word] = (wordCount[word] || 0) + n\<close>\<close>
  "bump n wordCount w = (if inheritedName w then wordCount else addCount wordCount w n)"

text \<open>
  The cue phrases. Each pattern is an alternation of literal phrases followed by
  \<open>\s+(?:the\s+)?(\w+)\<close>, matched without regard to the case of ASCII letters. At a
  position of the text the alternatives are tried in order; after the phrase all white
  space is taken; then \<open>the\<close>, white space and a word if these three are there, else a
  word at once. The result is the captured word and the length of the whole match.
\<close>

definition startsWithCI :: "string \<Rightarrow> string \<Rightarrow> bool" where
  "startsWithCI s p = (length p \<le> length s \<and> toLowerCase (take (length p) s) = p)"

definition wordAt :: "string \<Rightarrow> (string \<times> nat) option" where
  "wordAt s = (let w = takeWhile isWordChar s in if w = [] then None else Some (w, length w))"

definition theThenWord :: "string \<Rightarrow> (string \<times> nat) option" where
  "theThenWord s =
     (if startsWithCI s ''the''
      then (let r = drop 3 s; sp = takeWhile isSpace r
            in if sp = [] then None
               else (case wordAt (dropWhile isSpace r) of
                       None \<Rightarrow> None
                     | Some (w, n) \<Rightarrow> Some (w, 3 + length sp + n)))
      else None)"

definition cueTail :: "string \<Rightarrow> (string \<times> nat) option" where
  "cueTail s =
     (let sp = takeWhile isSpace s; r = dropWhile isSpace s
      in if sp = [] then None
         else (case (case theThenWord r of None \<Rightarrow> wordAt r | Some m \<Rightarrow> Some m) of
                 None \<Rightarrow> None
               | Some (w, n) \<Rightarrow> Some (w, length sp + n)))"

fun matchAt :: "string list \<Rightarrow> string \<Rightarrow> (string \<times> nat) option" where
  "matchAt [] s = None"
| "matchAt (p # ps) s =
     (case (if startsWithCI s p then cueTail (drop (length p) s) else None) of
        Some (w, n) \<Rightarrow> Some (w, length p + n)
      | None \<Rightarrow> matchAt ps s)"

fun matchAllFrom :: "string list \<Rightarrow> nat \<Rightarrow> string \<Rightarrow> string list" where
  \<comment> \<open>\<open>skip\<close> characters still belong to the match found last\<close>
  "matchAllFrom ps skip [] = []"
| "matchAllFrom ps skip (c # cs) =
     (if skip > 0 then matchAllFrom ps (skip - 1) cs
      else (case matchAt ps (c # cs) of
              Some (w, n) \<Rightarrow> w # matchAllFrom ps (n - 1) cs
            | None \<Rightarrow> matchAllFrom ps 0 cs))"

definition matchAll :: "string list \<Rightarrow> string \<Rightarrow> string list" where
  \<comment> \<open>the first capture group of every match of \<open>text.matchAll(pattern)\<close>\<close>
  "matchAll ps text = matchAllFrom ps 0 text"

definition topicIndicators :: "(string list \<times> nat) list" where
  "topicIndicators =
     [([''i am objectively talking about'', ''i am talking about''], 10),
      ([''this is about'', ''it is about''], 8),
      ([''i like'', ''i love'', ''i prefer''], 6),
      ([''talking about'', ''discussing'', ''mentioning''], 5),
      ([''so i like''], 7)]"

definition applyIndicator :: "string \<Rightarrow> (string \<times> nat) list \<Rightarrow> string list \<times> nat \<Rightarrow> (string \<times> nat) list" where
  "applyIndicator text wordCount indicator =
     foldl (\<lambda>wc m. let w = toLowerCase m in if keepWord w then bump (snd indicator) wc w else wc)
       wordCount (matchAll (fst indicator) text)"

text \<open>
  \<open>Object.entries\<close> lists the keys that are array indices first, in ascending numeric
  order, then the other keys in insertion order. \<open>sort\<close> is stable, so the word returned
  is the first of the highest count in that order.
\<close>

definition indexValue :: "string \<Rightarrow> int" where
  "indexValue w = foldl (\<lambda>a c. 10 * a + (of_char c - 48)) 0 w"

definition isArrayIndex :: "string \<Rightarrow> bool" where
  "isArrayIndex w =
     (w \<noteq> [] \<and> list_all isDigit w \<and> (w = ''0'' \<or> hd w \<noteq> CHR ''0'') \<and> indexValue w \<le> 4294967294)"

definition entries :: "(string \<times> nat) list \<Rightarrow> (string \<times> nat) list" where
  "entries wordCount =
     sort_key (\<lambda>e. indexValue (fst e)) (filter (\<lambda>e. isArrayIndex (fst e)) wordCount)
     @ filter (\<lambda>e. \<not> isArrayIndex (fst e)) wordCount"

definition extractTopicByFrequency :: "string \<Rightarrow> string option" where
  "extractTopicByFrequency text =
     (let ws = frequencyWords text;
          wordCount0 = foldl (bump 1) [] ws;
          wordCount = foldl (applyIndicator text) wordCount0 topicIndicators;
          frequentWords = sort_key (\<lambda>e. - int (snd e)) (filter (\<lambda>e. snd e \<ge> 2) (entries wordCount))
      in case frequentWords of [] \<Rightarrow> None | e # _ \<Rightarrow> Some (fst e))"

text \<open>
  Test data: the session is recording and holds one fragment, with an end phrase and a
  language stored that are not those of \<open>exampleRequest\<close>.
\<close>

definition staleBuffer :: SessionAudioBuffer where
  "staleBuffer =
     \<lparr>chunks = [sampleWav], isRecording = True, startKeyword = Some ''magic word'',
      endKeyword = Some ''stop'', language = ''hi''\<rparr>"

definition staleState :: state where
  "staleState = setBuffer ''s1'' staleBuffer initialState"

section \<open>Properties of the Diarization Pipeline\<close>

lemma sent_sendTo:
  "sent (sendTo r sid m st) = sent st \<or> sent (sendTo r sid m st) = sent st @ [(sid, r, m)]"
  by (simp add: sendTo_def split: option.splits)

lemma newMessages_sendTo:
  "newMessages st (sendTo r sid m st') = newMessages st st'
   \<or> newMessages st (sendTo r sid m st') = drop (length (sent st)) (sent st' @ [(sid, r, m)])"
  using sent_sendTo [of r sid m st'] by (auto simp: newMessages_def)

lemma deliveredResults_append:
  "deliveredResults (xs @ ys) = deliveredResults xs @ deliveredResults ys"
  by (induction xs rule: deliveredResults.induct) simp_all

lemma fallbackTopic_nonempty: "fallbackTopic s \<noteq> []"
  by (simp add: fallbackTopic_def orElseStr_def Let_def)

lemma languageBranch_extracted:
  "extractedTopic (languageBranch sv lang ft l) = extractedTopic l"
  "extractedSummary (languageBranch sv lang ft l) = extractedSummary l"
  by (simp_all add: languageBranch_def Let_def split: option.splits)

lemma finalFallback_result:
  assumes "extractedTopic l = None"
  shows "summary (finalFallback l) = Some (extractedSummary l)"
    and "topic (finalFallback l) = Some (fallbackTopic (extractedSummary l))"
  using assms by (simp_all add: finalFallback_def topicMissing_def Let_def)

lemma delivered_sendTo:
  "set (deliveredResults (sent (sendTo r sid m st)))
   \<subseteq> set (deliveredResults (sent st)) \<union> set (deliveredResults [(sid, r, m)])"
  using sent_sendTo [of r sid m st] by (auto simp: deliveredResults_append)

lemma sent_sendTo_prefix: "\<exists>xs. sent (sendTo r sid m st) = sent st @ xs \<and> set xs \<subseteq> {(sid, r, m)}"
  using sent_sendTo [of r sid m st] by auto

lemma sent_deliver:
  "\<exists>xs. sent (deliver sid l st) = sent st @ xs
        \<and> set (deliveredResults xs) \<subseteq> {(summary l, topic l)}"
proof -
  let ?st1 = "sendTo spectator sid (SummaryMsg (summary l) (topic l)) st"
  let ?st2 = "?st1\<lparr>sessionTopics := (sessionTopics ?st1)(sid := topic l)\<rparr>"
  obtain xs where xs: "sent ?st1 = sent st @ xs" "set xs \<subseteq> {(sid, spectator, SummaryMsg (summary l) (topic l))}"
    using sent_sendTo_prefix by blast
  obtain ys where ys: "sent (sendTo magician sid (SummarizeComplete (summary l) (topic l)) ?st2) = sent ?st2 @ ys"
    "set ys \<subseteq> {(sid, magician, SummarizeComplete (summary l) (topic l))}"
    using sent_sendTo_prefix by blast
  have d: "sent (deliver sid l st) = sent st @ (xs @ ys)"
    using xs(1) ys(1) by (simp add: deliver_def Let_def)
  have "xs = [] \<or> xs = [(sid, spectator, SummaryMsg (summary l) (topic l))]"
    using sent_sendTo [of spectator sid "SummaryMsg (summary l) (topic l)" st] xs(1) by auto
  moreover have "ys = [] \<or> ys = [(sid, magician, SummarizeComplete (summary l) (topic l))]"
    using sent_sendTo [of magician sid "SummarizeComplete (summary l) (topic l)" ?st2] ys(1) by auto
  ultimately have "set (deliveredResults (xs @ ys)) \<subseteq> {(summary l, topic l)}"
    by (auto simp: deliveredResults_append)
  with d show ?thesis by blast
qed

lemma newMessages_error:
  assumes "deliveredResults [(sid, r, m)] = []"
  shows "deliveredResults (newMessages st (sendTo r sid m st)) = []"
  using assms sent_sendTo [of r sid m st] by (auto simp: newMessages_def)

lemma newMessages_error2:
  assumes 1: "deliveredResults [(sid, r, m)] = []" and 2: "deliveredResults [(sid', r', m')] = []"
  shows "deliveredResults (newMessages st (sendTo r sid m (sendTo r' sid' m' st))) = []"
proof -
  have 3: "deliveredResults [(sid', r', m'), (sid, r, m)] = []"
    using deliveredResults_append [of "[(sid', r', m')]" "[(sid, r, m)]"] 1 2 by simp
  show ?thesis
    using sent_sendTo [of r sid m "sendTo r' sid' m' st"] sent_sendTo [of r' sid' m' st] 1 2 3
    by (auto simp: newMessages_def)
qed

lemma delivered_results:
  "set (deliveredResults (newMessages st (processDiarization sv audio sid lang sk ek st)))
   \<subseteq> {(Some (extractTextBetweenKeywords t sk ek),
        Some (fallbackTopic (extractTextBetweenKeywords t sk ek))) | t. True}"
proof (cases "transcribeFile sv audio lang True")
  case Throws
  then show ?thesis by (simp add: processDiarization_def newMessages_error)
next
  case Failed
  then show ?thesis by (simp add: processDiarization_def newMessages_error)
next
  case (Channels channels)
  show ?thesis
  proof (cases "selectTranscript channels")
    case None
    with Channels show ?thesis by (simp add: processDiarization_def newMessages_error)
  next
    case (Some t)
    let ?ft = "extractTextBetweenKeywords t sk ek"
    let ?st1 = "sendTo magician sid (MagicTranscript (trim t)) st"
    show ?thesis
    proof (cases "cleanText ?ft = [] \<or> length (cleanText ?ft) < 2")
      case True
      with Channels Some show ?thesis
        by (simp add: processDiarization_def Let_def newMessages_error2)
    next
      case False
      let ?l0 = "\<lparr>summary = Some ?ft, topic = None, extractedTopic = None, extractedSummary = ?ft\<rparr>"
      let ?l2 = "finalFallback (languageBranch sv lang ?ft ?l0)"
      have pd: "processDiarization sv audio sid lang sk ek st = deliver sid ?l2 ?st1"
        using Channels Some False by (simp add: processDiarization_def Let_def)
      have s: "summary ?l2 = Some ?ft" and tp: "topic ?l2 = Some (fallbackTopic ?ft)"
        using finalFallback_result [of "languageBranch sv lang ?ft ?l0"]
        by (simp_all add: languageBranch_extracted)
      obtain xs where xs: "sent (deliver sid ?l2 ?st1) = sent ?st1 @ xs"
        "set (deliveredResults xs) \<subseteq> {(summary ?l2, topic ?l2)}"
        using sent_deliver by blast
      have "sent ?st1 = sent st \<or> sent ?st1 = sent st @ [(sid, magician, MagicTranscript (trim t))]"
        by (rule sent_sendTo)
      then have "deliveredResults (newMessages st (deliver sid ?l2 ?st1)) = deliveredResults xs"
        using xs(1) by (auto simp: newMessages_def)
      with xs(2) s tp pd show ?thesis by auto
    qed
  qed
qed

text \<open>
  Claim C2. In every run of the pipeline, each \<open>{summary, topic}\<close> result it sends
  carries a topic that is a non-empty string: the topic is the fallback derived from the
  delivered summary, its first two words of more than two characters, or the phrase
  \<open>speech topic\<close> when there is no such word.
\<close>

theorem delivered_topic_never_empty:
  "\<forall>(s, t) \<in> set (deliveredResults (newMessages st (processDiarization sv audio sid lang sk ek st))).
     \<exists>sm tp. s = Some sm \<and> t = Some tp \<and> tp \<noteq> [] \<and> tp = fallbackTopic sm"
  using delivered_results [of st sv audio sid lang sk ek] fallbackTopic_nonempty by fastforce

theorem delivered_topic_never_empty_witness:
  "deliveredResults (newMessages initialState
      (processDiarization exampleServices sampleWav ''s1'' ''en''
         (Some ''magic word'') (Some ''magic stop'') initialState))
     = [(Some ''an apple pie recipe'', Some ''apple pie''),
        (Some ''an apple pie recipe'', Some ''apple pie'')]
   \<and> ''apple pie'' \<noteq> []
   \<and> ''apple pie'' = fallbackTopic ''an apple pie recipe''"
proof -
  have d: "deliveredResults (newMessages initialState
      (processDiarization exampleServices sampleWav ''s1'' ''en''
         (Some ''magic word'') (Some ''magic stop'') initialState))
     = [(Some ''an apple pie recipe'', Some ''apple pie''),
        (Some ''an apple pie recipe'', Some ''apple pie'')]"
    by code_simp
  from delivered_topic_never_empty [of initialState exampleServices sampleWav "''s1''" "''en''"
      "Some ''magic word''" "Some ''magic stop''"]
  have "\<exists>sm tp. Some ''an apple pie recipe'' = Some sm \<and> Some ''apple pie'' = Some tp
          \<and> tp \<noteq> [] \<and> tp = fallbackTopic sm"
    unfolding d by simp
  then have "''apple pie'' \<noteq> [] \<and> ''apple pie'' = fallbackTopic ''an apple pie recipe''"
    by auto
  with d show ?thesis by blast
qed

text \<open>
  Claim C1. For an English session the delivered summary is the one the Summarization
  Service returned for the filtered text, and the delivered topic is the AI Topic
  Service's. The source asks both services and stores their answers in \<open>summary\<close> and
  \<open>topic\<close>, and then overwrites the two variables with \<open>extractedSummary\<close> (the filtered
  text) and \<open>extractedTopic\<close> (never assigned, so always the fallback). With services
  answering \<open>A recipe for apple pie.\<close> and \<open>baking\<close>, both participants receive the
  filtered text \<open>an apple pie recipe\<close> and the topic \<open>apple pie\<close>.
\<close>

theorem english_results_overwritten:
  "summarizeTextWithDeepgram exampleServices ''an apple pie recipe'' ''en''
     = (''A recipe for apple pie.'', None)
   \<and> extractExactTopic exampleServices ''an apple pie recipe'' = ''baking''
   \<and> sent (processDiarization exampleServices sampleWav ''s1'' ''en''
            (Some ''magic word'') (Some ''magic stop'') initialState) =
      [(''s1'', magician, MagicTranscript ''Magic word an apple pie recipe magic stop''),
       (''s1'', spectator, SummaryMsg (Some ''an apple pie recipe'') (Some ''apple pie'')),
       (''s1'', magician, SummarizeComplete (Some ''an apple pie recipe'') (Some ''apple pie''))]"
  by code_simp

section \<open>Properties of the Audio Splicer\<close>

lemma bindE_Inr: "bindE (Inr x) f = f x"
  by (simp add: bindE_def)

lemma bindE_Inl: "bindE (Inl e) f = Inl e"
  by (simp add: bindE_def)

lemma combinedPCM_concat: "combinedPCM ws = concat (map (drop 44) ws)"
  unfolding combinedPCM_def pcmDataBuffers_def WAV_HEADER_SIZE_def alloc_def slice_def
  by (induction ws) auto

lemma length_combinedPCM: "length (combinedPCM ws) = (\<Sum>b\<leftarrow>ws. length b - 44)"
  unfolding combinedPCM_concat by (simp add: length_concat comp_def)

lemma length_writeBytes:
  "offset + length bs \<le> length buf \<Longrightarrow> length (writeBytes buf bs offset) = length buf"
  by (simp add: writeBytes_def)

lemma writeBytes_append:
  "offset + length bs \<le> length h \<Longrightarrow> writeBytes (h @ p) bs offset = writeBytes h bs offset @ p"
  by (simp add: writeBytes_def)

lemma writeBytes_payload:
  "length p = length pcm \<Longrightarrow> writeBytes (h @ p) pcm (length h) = h @ pcm"
  by (simp add: writeBytes_def)

lemma writeUInt16LE_ok:
  "0 \<le> v \<Longrightarrow> v \<le> 65535 \<Longrightarrow> offset + 2 \<le> length buf \<Longrightarrow>
   writeUInt16LE buf v offset = Inr (writeBytes buf (u16le (nat \<lfloor>v\<rfloor>)) offset)"
  by (simp add: writeUInt16LE_def u16le_def Let_def)

lemma writeUInt32LE_ok:
  "0 \<le> v \<Longrightarrow> v \<le> 4294967295 \<Longrightarrow> offset + 4 \<le> length buf \<Longrightarrow>
   writeUInt32LE buf v offset = Inr (writeBytes buf (u32le (nat \<lfloor>v\<rfloor>)) offset)"
  by (simp add: writeUInt32LE_def u32le_def Let_def)

lemma floor_nat_div: "nat \<lfloor>(of_nat m :: rat) / 8\<rfloor> = m div 8"
  using floor_divide_of_nat_eq [of m 8, where ?'a = rat] by simp

lemma floor_nat: "nat \<lfloor>(of_nat m :: rat)\<rfloor> = m"
  by simp

lemma length_u16le: "length (u16le n) = 2" by (simp add: u16le_def)
lemma length_u32le: "length (u32le n) = 4" by (simp add: u32le_def)
lemma length_asciiBytes: "length (asciiBytes s) = length s" by (simp add: asciiBytes_def)

lemma header_writes:
  fixes r :: "byte list" and m k d e :: "byte list"
  assumes "length r = 4" "length s = 4" "length t = 4" "length u = 4" "length a = 4" "length v = 2"
    "length c = 2" "length d = 4" "length e = 4" "length f = 2" "length g = 2" "length w = 4" "length z = 4"
  shows "writeBytes (writeBytes (writeBytes (writeBytes (writeBytes (writeBytes (writeBytes
          (writeBytes (writeBytes (writeBytes (writeBytes (writeBytes (writeBytes (replicate 44 0)
            r 0) s 4) t 8) u 12) a 16) v 20) c 22) d 24) e 28) f 32) g 34) w 36) z 40
         = r @ s @ t @ u @ a @ v @ c @ d @ e @ f @ g @ w @ z"
  using assms by (simp add: writeBytes_def)

lemma readUInt16LE_bound: "readUInt16LE buf offset = Inr v \<Longrightarrow> v \<le> 65535"
proof -
  assume a: "readUInt16LE buf offset = Inr v"
  have "unat (buf ! offset) < 256" "unat (buf ! (offset + 1)) < 256"
    using unsigned_less [of "buf ! offset", where ?'a = nat]
      unsigned_less [of "buf ! (offset + 1)", where ?'a = nat] by simp_all
  with a show ?thesis
    by (auto simp: readUInt16LE_def split: if_splits)
qed

lemma readUInt32LE_bound: "readUInt32LE buf offset = Inr v \<Longrightarrow> v \<le> 4294967295"
proof -
  assume a: "readUInt32LE buf offset = Inr v"
  have "unat (buf ! offset) < 256" "unat (buf ! (offset + 1)) < 256"
    "unat (buf ! (offset + 2)) < 256" "unat (buf ! (offset + 3)) < 256"
    using unsigned_less [of "buf ! offset", where ?'a = nat]
      unsigned_less [of "buf ! (offset + 1)", where ?'a = nat]
      unsigned_less [of "buf ! (offset + 2)", where ?'a = nat]
      unsigned_less [of "buf ! (offset + 3)", where ?'a = nat] by simp_all
  with a show ?thesis
    by (auto simp: readUInt32LE_def split: if_splits)
qed

lemma writeString_step:
  "length h = 44 \<Longrightarrow> offset + length s \<le> 44 \<Longrightarrow>
   writeString (h @ p) s offset = writeBytes h (asciiBytes s) offset @ p"
  by (simp add: writeString_def writeBytes_append length_asciiBytes)

lemma writeUInt16LE_step:
  "length h = 44 \<Longrightarrow> offset + 2 \<le> 44 \<Longrightarrow> 0 \<le> v \<Longrightarrow> v \<le> 65535 \<Longrightarrow>
   writeUInt16LE (h @ p) v offset = Inr (writeBytes h (u16le (nat \<lfloor>v\<rfloor>)) offset @ p)"
  by (simp add: writeUInt16LE_ok writeBytes_append length_u16le)

lemma writeUInt32LE_step:
  "length h = 44 \<Longrightarrow> offset + 4 \<le> 44 \<Longrightarrow> 0 \<le> v \<Longrightarrow> v \<le> 4294967295 \<Longrightarrow>
   writeUInt32LE (h @ p) v offset = Inr (writeBytes h (u32le (nat \<lfloor>v\<rfloor>)) offset @ p)"
  by (simp add: writeUInt32LE_ok writeBytes_append length_u32le)

lemma length_writeBytes_44:
  "length h = 44 \<Longrightarrow> offset + length bs \<le> 44 \<Longrightarrow> length (writeBytes h bs offset) = 44"
  by (simp add: length_writeBytes)

lemma rat_div8_le: "m \<le> 8 * k \<Longrightarrow> (of_nat m :: rat) / 8 \<le> of_nat k"
proof -
  assume "m \<le> 8 * k"
  then have "(of_nat m :: rat) \<le> of_nat (8 * k)" by (simp only: of_nat_le_iff)
  then show ?thesis by simp
qed

lemma combine_many:
  assumes n: "2 \<le> length ws"
    and ch: "readUInt16LE (ws ! 0) 22 = Inr numChannels"
    and sr: "readUInt32LE (ws ! 0) 24 = Inr sampleRate"
    and bp: "readUInt16LE (ws ! 0) 34 = Inr bitsPerSample"
    and ba: "numChannels * bitsPerSample \<le> 8 * 65535"
    and br: "sampleRate * numChannels * bitsPerSample \<le> 8 * 4294967295"
    and sz: "36 + length (combinedPCM ws) \<le> 4294967295"
  shows "combineWavBuffers ws
         = Inr (canonicalHeader numChannels sampleRate bitsPerSample (length (combinedPCM ws))
                @ combinedPCM ws)"
proof -
  define pcm where "pcm = combinedPCM ws"
  define z :: Buffer where "z = replicate (length pcm) 0"
  have a0: "alloc (WAV_HEADER_SIZE + length pcm) = replicate 44 0 @ z"
    by (simp add: alloc_def WAV_HEADER_SIZE_def z_def replicate_add)
  have r1: "(of_nat (36 + length pcm) :: rat) \<le> 4294967295"
    using sz unfolding pcm_def [symmetric] by (metis of_nat_le_iff of_nat_numeral)
  have r2: "(of_nat (length pcm) :: rat) \<le> 4294967295"
    using sz unfolding pcm_def [symmetric] by (metis add_leD2 of_nat_le_iff of_nat_numeral)
  have r3: "(of_nat numChannels :: rat) \<le> 65535"
    using readUInt16LE_bound [OF ch] by (metis of_nat_le_iff of_nat_numeral)
  have r4: "(of_nat bitsPerSample :: rat) \<le> 65535"
    using readUInt16LE_bound [OF bp] by (metis of_nat_le_iff of_nat_numeral)
  have r5: "(of_nat sampleRate :: rat) \<le> 4294967295"
    using readUInt32LE_bound [OF sr] by (metis of_nat_le_iff of_nat_numeral)
  have r6: "(of_nat (numChannels * bitsPerSample) :: rat) / 8 \<le> 65535"
    using rat_div8_le [OF ba] by simp
  have r7: "(of_nat (sampleRate * numChannels * bitsPerSample) :: rat) / 8 \<le> 4294967295"
    using rat_div8_le [OF br] by simp
  have lz: "length z = length pcm" by (simp add: z_def)
  have n0: "(length ws = 0) = False" and n1: "(length ws = 1) = False" using n by auto
  have "combineWavBuffers ws
        = Inr (writeBytes (
            writeBytes (writeBytes (writeBytes (writeBytes (writeBytes (writeBytes (writeBytes
            (writeBytes (writeBytes (writeBytes (writeBytes (writeBytes (writeBytes (replicate 44 0)
              (asciiBytes ''RIFF'') 0) (u32le (36 + length pcm)) 4) (asciiBytes ''WAVE'') 8)
              (asciiBytes ''fmt '') 12) (u32le 16) 16) (u16le 1) 20) (u16le numChannels) 22)
              (u32le sampleRate) 24) (u32le (sampleRate * numChannels * bitsPerSample div 8)) 28)
              (u16le (numChannels * bitsPerSample div 8)) 32) (u16le bitsPerSample) 34)
              (asciiBytes ''data'') 36) (u32le (length pcm)) 40 @ z) pcm WAV_HEADER_SIZE)"
    unfolding combineWavBuffers_def pcm_def [symmetric] Let_def a0 ch sr bp bindE_Inr
    using r1 r2 r3 r4 r5 r6 r7
    by (simp only: n0 n1 if_False) (simp add: writeString_step writeUInt16LE_step writeUInt32LE_step length_writeBytes_44
        length_u16le length_u32le length_asciiBytes bindE_Inr floor_nat_div
        del: of_nat_add of_nat_mult)
  also have "\<dots> = Inr (canonicalHeader numChannels sampleRate bitsPerSample (length pcm) @ pcm)"
    unfolding canonicalHeader_def WAV_HEADER_SIZE_def
    by (subst header_writes)
      (simp_all add: length_u16le length_u32le length_asciiBytes writeBytes_def lz)
  finally show ?thesis unfolding pcm_def .
qed

lemma unat_byte: "unat (of_nat m :: byte) = m mod 256"
  by (simp add: unat_of_nat)

lemma u16_roundtrip:
  "m \<le> 65535 \<Longrightarrow> unat (of_nat m :: byte) + unat (of_nat (m div 2 ^ 8) :: byte) * 2 ^ 8 = m"
  unfolding unat_byte by simp

lemma u32_roundtrip:
  "m \<le> 4294967295 \<Longrightarrow>
   unat (of_nat m :: byte) + unat (of_nat (m div 2 ^ 8) :: byte) * 2 ^ 8
   + unat (of_nat (m div 2 ^ 16) :: byte) * 2 ^ 16 + unat (of_nat (m div 2 ^ 24) :: byte) * 2 ^ 24 = m"
proof -
  assume le: "m \<le> 4294967295"
  define a where "a = m div 256"
  define b where "b = a div 256"
  define c where "c = b div 256"
  have d16: "m div 65536 = b" and d24: "m div 16777216 = c"
    unfolding a_def b_def c_def by (simp_all add: div_mult2_eq [symmetric])
  have "c < 256" using le unfolding d24 [symmetric] by simp
  then have cm: "c mod 256 = c" by simp
  have m: "m = m mod 256 + 256 * a" and a: "a = a mod 256 + 256 * b" and b: "b = b mod 256 + 256 * c"
    unfolding a_def b_def c_def by simp_all
  have "m mod 256 + a mod 256 * 256 + b mod 256 * 65536 + c * 16777216 = m"
    using m a b by linarith
  then show ?thesis
    unfolding unat_byte by (simp add: d16 d24 cm a_def [symmetric])
qed

lemma readUInt16LE_u16le:
  "length h = offset \<Longrightarrow> m \<le> 65535 \<Longrightarrow> readUInt16LE (h @ u16le m @ rest) offset = Inr m"
  using u16_roundtrip [of m] by (simp add: readUInt16LE_def u16le_def nth_append)

lemma readUInt32LE_u32le:
  "length h = offset \<Longrightarrow> m \<le> 4294967295 \<Longrightarrow> readUInt32LE (h @ u32le m @ rest) offset = Inr m"
  using u32_roundtrip [of m] by (simp add: readUInt32LE_def u32le_def nth_append)


lemma length_canonicalHeader: "length (canonicalHeader c r b n) = 44"
  by (simp add: canonicalHeader_def length_u16le length_u32le length_asciiBytes)

lemma header_present:
  assumes "36 + length pcm \<le> 4294967295"
  shows "canonicalHeaderPresent (canonicalHeader c r b (length pcm) @ pcm)"
proof -
  let ?H = "canonicalHeader c r b (length pcm)"
  have l: "length (?H @ pcm) = 44 + length pcm" by (simp add: length_canonicalHeader)
  have t0: "take 4 (?H @ pcm) = asciiBytes ''RIFF''"
    by (simp add: canonicalHeader_def length_asciiBytes)
  have t8: "take 4 (drop 8 (?H @ pcm)) = asciiBytes ''WAVE''"
    by (simp add: canonicalHeader_def length_asciiBytes length_u32le)
  have t12: "take 4 (drop 12 (?H @ pcm)) = asciiBytes ''fmt ''"
    by (simp add: canonicalHeader_def length_asciiBytes length_u32le)
  have t36: "take 4 (drop 36 (?H @ pcm)) = asciiBytes ''data''"
    by (simp add: canonicalHeader_def length_asciiBytes length_u32le length_u16le)
  have r4: "readUInt32LE (?H @ pcm) 4 = Inr (36 + length pcm)"
    unfolding canonicalHeader_def append_assoc
    by (rule readUInt32LE_u32le) (simp_all add: length_asciiBytes assms)
  have r16: "readUInt32LE (?H @ pcm) 16 = Inr 16"
    using readUInt32LE_u32le [of "asciiBytes ''RIFF'' @ u32le (36 + length pcm) @ asciiBytes ''WAVE'' @ asciiBytes ''fmt ''" 16 16]
    by (simp add: canonicalHeader_def length_asciiBytes length_u32le)
  have r20: "readUInt16LE (?H @ pcm) 20 = Inr 1"
    using readUInt16LE_u16le [of "asciiBytes ''RIFF'' @ u32le (36 + length pcm) @ asciiBytes ''WAVE'' @ asciiBytes ''fmt '' @ u32le 16" 20 1]
    by (simp add: canonicalHeader_def length_asciiBytes length_u32le)
  have r40: "readUInt32LE (?H @ pcm) 40 = Inr (length pcm)"
    using readUInt32LE_u32le [of "asciiBytes ''RIFF'' @ u32le (36 + length pcm) @ asciiBytes ''WAVE''
       @ asciiBytes ''fmt '' @ u32le 16 @ u16le 1 @ u16le c @ u32le r
       @ u32le (r * c * b div 8) @ u16le (c * b div 8) @ u16le b @ asciiBytes ''data''" 40 "length pcm" pcm] assms
    by (simp add: canonicalHeader_def length_asciiBytes length_u32le length_u16le)
  show ?thesis
    unfolding canonicalHeaderPresent_def l WAV_HEADER_SIZE_def
    using t0 t8 t12 t36 r4 r16 r20 r40 by simp
qed

lemma header_fields:
  assumes "c \<le> 65535" "r \<le> 4294967295" "b \<le> 65535"
  shows "readUInt16LE (canonicalHeader c r b n @ pcm) 22 = Inr c"
    and "readUInt32LE (canonicalHeader c r b n @ pcm) 24 = Inr r"
    and "readUInt16LE (canonicalHeader c r b n @ pcm) 34 = Inr b"
proof -
  show "readUInt16LE (canonicalHeader c r b n @ pcm) 22 = Inr c"
    using readUInt16LE_u16le [of "asciiBytes ''RIFF'' @ u32le (36 + n) @ asciiBytes ''WAVE'' @ asciiBytes ''fmt '' @ u32le 16 @ u16le 1" 22 c] assms
    by (simp add: canonicalHeader_def length_asciiBytes length_u32le length_u16le)
  show "readUInt32LE (canonicalHeader c r b n @ pcm) 24 = Inr r"
    using readUInt32LE_u32le [of "asciiBytes ''RIFF'' @ u32le (36 + n) @ asciiBytes ''WAVE'' @ asciiBytes ''fmt '' @ u32le 16 @ u16le 1 @ u16le c" 24 r] assms
    by (simp add: canonicalHeader_def length_asciiBytes length_u32le length_u16le)
  show "readUInt16LE (canonicalHeader c r b n @ pcm) 34 = Inr b"
    using readUInt16LE_u16le [of "asciiBytes ''RIFF'' @ u32le (36 + n) @ asciiBytes ''WAVE'' @ asciiBytes ''fmt '' @ u32le 16 @ u16le 1 @ u16le c @ u32le r
       @ u32le (r * c * b div 8) @ u16le (c * b div 8)" 34 b] assms
    by (simp add: canonicalHeader_def length_asciiBytes length_u32le length_u16le)
qed

lemma combineWavBuffers_zero: "combineWavBuffers [] = Inr []"
  by (simp add: combineWavBuffers_def alloc_def)

lemma combineWavBuffers_one: "combineWavBuffers [b] = Inr b"
  by (simp add: combineWavBuffers_def)

lemma sampleWav_fields:
  "readUInt16LE sampleWav 22 = Inr 2" "readUInt32LE sampleWav 24 = Inr 44100"
  "readUInt16LE sampleWav 34 = Inr 16"
  by (simp_all add: readUInt16LE_def readUInt32LE_def sampleWav_def)

text \<open>
  Claim C3. Zero fragments give a zero-length buffer, one fragment is returned unchanged,
  and two or more fragments give the concatenation of the payloads after offset 44, for
  every list of buffers. The splicer reads the format fields of the first fragment at
  offsets 22, 24 and 34 without the length check it applies to the payloads: with a first
  fragment cut short, combining two fragments raises a \<open>RangeError\<close> and yields no buffer
  at all.
\<close>

theorem combineWavBuffers_truncated_first:
  "combineWavBuffers [truncatedWav, sampleWav] = Inl RangeError"
  by (simp add: combineWavBuffers_def truncatedWav_def readUInt16LE_def bindE_def Let_def)

text \<open>
  Claim C4, as stated: the output always holds a complete 44-byte header. Zero fragments
  give the empty buffer, which holds none.
\<close>

theorem combineWavBuffers_empty_no_header:
  "combineWavBuffers [] = Inr [] \<and> \<not> canonicalHeaderPresent []"
  by (simp add: combineWavBuffers_zero canonicalHeaderPresent_def WAV_HEADER_SIZE_def)

text \<open>
  Claim C4, amended. Zero fragments give the empty buffer and one fragment is returned
  as it is, whatever it holds. For two or more fragments whose first fragment holds the
  format fields (the three reads succeed), with block align, byte rate and chunk size in
  the range of their header fields, the output is a complete canonical 44-byte header,
  carrying the channel count, sample rate and bits per sample of the first fragment,
  followed by the payloads in arrival order, also when the payload is empty.
\<close>

theorem combineWavBuffers_header:
  "combineWavBuffers [] = Inr []
   \<and> combineWavBuffers [b] = Inr b
   \<and> (2 \<le> length ws
        \<and> readUInt16LE (ws ! 0) 22 = Inr numChannels
        \<and> readUInt32LE (ws ! 0) 24 = Inr sampleRate
        \<and> readUInt16LE (ws ! 0) 34 = Inr bitsPerSample
        \<and> numChannels * bitsPerSample \<le> 8 * 65535
        \<and> sampleRate * numChannels * bitsPerSample \<le> 8 * 4294967295
        \<and> 36 + length (combinedPCM ws) \<le> 4294967295
      \<longrightarrow> (\<exists>out. combineWavBuffers ws = Inr out
             \<and> canonicalHeaderPresent out
             \<and> readUInt16LE out 22 = Inr numChannels
             \<and> readUInt32LE out 24 = Inr sampleRate
             \<and> readUInt16LE out 34 = Inr bitsPerSample
             \<and> drop 44 out = concat (map (drop 44) ws)
             \<and> length out = 44 + (\<Sum>b\<leftarrow>ws. length b - 44)))"
proof (intro conjI impI)
  show "combineWavBuffers [] = Inr []" by (rule combineWavBuffers_zero)
  show "combineWavBuffers [b] = Inr b" by (rule combineWavBuffers_one)
next
  assume h: "2 \<le> length ws
        \<and> readUInt16LE (ws ! 0) 22 = Inr numChannels
        \<and> readUInt32LE (ws ! 0) 24 = Inr sampleRate
        \<and> readUInt16LE (ws ! 0) 34 = Inr bitsPerSample
        \<and> numChannels * bitsPerSample \<le> 8 * 65535
        \<and> sampleRate * numChannels * bitsPerSample \<le> 8 * 4294967295
        \<and> 36 + length (combinedPCM ws) \<le> 4294967295"
  let ?pcm = "combinedPCM ws"
  let ?out = "canonicalHeader numChannels sampleRate bitsPerSample (length ?pcm) @ ?pcm"
  from h have ch: "readUInt16LE (ws ! 0) 22 = Inr numChannels"
    and sr: "readUInt32LE (ws ! 0) 24 = Inr sampleRate"
    and bp: "readUInt16LE (ws ! 0) 34 = Inr bitsPerSample"
    and sz: "36 + length ?pcm \<le> 4294967295"
    by blast+
  have 1: "combineWavBuffers ws = Inr ?out"
    using h by (intro combine_many) blast+
  have 2: "canonicalHeaderPresent ?out"
    by (rule header_present [OF sz])
  note f = header_fields [OF readUInt16LE_bound [OF ch] readUInt32LE_bound [OF sr]
      readUInt16LE_bound [OF bp], of "length ?pcm" ?pcm]
  have 3: "drop 44 ?out = concat (map (drop 44) ws)"
    by (simp add: length_canonicalHeader combinedPCM_concat)
  have 4: "length ?out = 44 + (\<Sum>b\<leftarrow>ws. length b - 44)"
    by (simp add: length_canonicalHeader length_combinedPCM)
  from 1 2 f 3 4 show "\<exists>out. combineWavBuffers ws = Inr out
             \<and> canonicalHeaderPresent out
             \<and> readUInt16LE out 22 = Inr numChannels
             \<and> readUInt32LE out 24 = Inr sampleRate
             \<and> readUInt16LE out 34 = Inr bitsPerSample
             \<and> drop 44 out = concat (map (drop 44) ws)
             \<and> length out = 44 + (\<Sum>b\<leftarrow>ws. length b - 44)"
    by blast
qed

theorem combineWavBuffers_header_witness:
  "combineWavBuffers [] = Inr []
   \<and> combineWavBuffers [truncatedWav] = Inr truncatedWav
   \<and> (\<exists>out. combineWavBuffers [sampleWav, truncatedWav, sampleWav] = Inr out
        \<and> canonicalHeaderPresent out
        \<and> readUInt16LE out 22 = Inr 2
        \<and> readUInt32LE out 24 = Inr 44100
        \<and> readUInt16LE out 34 = Inr 16
        \<and> drop 44 out = [7, 8, 7, 8]
        \<and> length out = 48)"
proof -
  let ?ws = "[sampleWav, truncatedWav, sampleWav]"
  have pcm: "combinedPCM ?ws = [7, 8, 7, 8]"
    by (simp add: combinedPCM_concat sampleWav_def truncatedWav_def)
  have h: "2 \<le> length ?ws
        \<and> readUInt16LE (?ws ! 0) 22 = Inr 2
        \<and> readUInt32LE (?ws ! 0) 24 = Inr 44100
        \<and> readUInt16LE (?ws ! 0) 34 = Inr 16
        \<and> (2::nat) * 16 \<le> 8 * 65535
        \<and> (44100::nat) * 2 * 16 \<le> 8 * 4294967295
        \<and> 36 + length (combinedPCM ?ws) \<le> 4294967295"
    by (simp add: sampleWav_fields pcm)
  have d: "concat (map (drop 44) ?ws) = [7, 8, 7, 8]"
    by (simp add: sampleWav_def truncatedWav_def)
  have l: "44 + (\<Sum>b\<leftarrow>?ws. length b - 44) = 48"
    by (simp add: sampleWav_def truncatedWav_def)
  from combineWavBuffers_header [of truncatedWav ?ws 2 44100 16] h
  show ?thesis unfolding d l by blast
qed

section \<open>Properties of the Session Audio Buffer\<close>

lemma audioChunks_sendTo: "audioChunks (sendTo r sid m st) = audioChunks st"
  by (simp add: sendTo_def split: option.splits)

lemma started_sendTo: "started (sendTo r sid m st) = started st"
  by (simp add: sendTo_def split: option.splits)

lemma sessions_sendTo: "sessions (sendTo r sid m st) = sessions st"
  by (simp add: sendTo_def split: option.splits)

lemma connOf_sendTo: "connOf (sendTo r sid m st) sid' r' = connOf st sid' r'"
  by (simp add: connOf_def sessions_sendTo)

lemma audioChunks_setBuffer: "audioChunks (setBuffer sid b st) = (audioChunks st)(sid \<mapsto> b)"
  by (simp add: setBuffer_def)

lemma started_setBuffer: "started (setBuffer sid b st) = started st"
  by (simp add: setBuffer_def)

lemma sent_setBuffer: "sent (setBuffer sid b st) = sent st"
  by (simp add: setBuffer_def)

lemma connOf_setBuffer: "connOf (setBuffer sid b st) sid' r = connOf st sid' r"
  by (simp add: setBuffer_def connOf_def)

lemma sent_sendTo_setBuffer: "sent (sendTo r sid m (setBuffer sid' b st)) = sent (sendTo r sid m st)"
  by (simp add: sendTo_def connOf_setBuffer sent_setBuffer split: option.splits)

lemma normalizeText_Nil: "normalizeText [] = []"
  by (simp add: normalizeText_def toLowerCase_def removePunctuation_def trim_def trimStart_def)

lemma hasKeyword_Nil: "\<not> hasKeyword [] k"
  by (auto simp: hasKeyword_def Let_def normalizeText_Nil includesStr_def)

lemma firstTranscript_Throws: "firstTranscript Throws = []"
  by (simp add: firstTranscript_def)



lemma inactive_end_effects:
  assumes f: "reqFile req = Some audioBuffer"
    and b: "audioChunks st (reqSessionId req) = Some b"
    and r: "isRecording b"
    and e: "hasKeyword (firstTranscript (transcribeFile sv audioBuffer
                (withDefault (reqLanguage req) ''en'') False)) (reqEndKeyword req)"
    and s: "\<not> hasKeyword (firstTranscript (transcribeFile sv audioBuffer
                (withDefault (reqLanguage req) ''en'') False)) (reqStartKeyword req)"
    and a: "reqIsMagicActive req = Some ''false''"
  shows "fst (processAudioChunk sv req st)
           = Ok (firstTranscript (transcribeFile sv audioBuffer
                   (withDefault (reqLanguage req) ''en'') False)) False None
         \<and> audioChunks (snd (processAudioChunk sv req st))
           = (audioChunks st)(reqSessionId req \<mapsto>
               b\<lparr>startKeyword := orElse (reqStartKeyword req) (startKeyword b),
                 endKeyword := orElse (reqEndKeyword req) (endKeyword b),
                 language := orElseStr (withDefault (reqLanguage req) ''en'') (language b)\<rparr>)
         \<and> started (snd (processAudioChunk sv req st)) = started st
         \<and> sent (snd (processAudioChunk sv req st))
           = sent (sendTo magician (reqSessionId req)
                (Transcript (firstTranscript (transcribeFile sv audioBuffer
                   (withDefault (reqLanguage req) ''en'') False))) st)
         \<and> sessionTopics (snd (processAudioChunk sv req st)) = sessionTopics st
         \<and> map_option chunks (audioChunks (snd (processAudioChunk sv req st)) (reqSessionId req))
           = Some (chunks b)
         \<and> map_option isRecording (audioChunks (snd (processAudioChunk sv req st)) (reqSessionId req))
           = Some True"
proof -
  let ?r = "transcribeFile sv audioBuffer (withDefault (reqLanguage req) ''en'') False"
  have nt: "?r \<noteq> Throws"
    using e hasKeyword_Nil firstTranscript_Throws by metis
  have st: "sessionTopics (sendTo magician (reqSessionId req) (Transcript (firstTranscript ?r))
              (setBuffer (reqSessionId req) (refreshBuffer req (withDefault (reqLanguage req) ''en'') st) st))
            = sessionTopics st"
    by (simp add: sendTo_def setBuffer_def split: option.splits)
  show ?thesis
    using nt e s a st
    by (cases ?r)
      (simp_all add: processAudioChunk_def f Let_def audioChunks_sendTo audioChunks_setBuffer
        started_sendTo started_setBuffer sent_setBuffer sent_sendTo_setBuffer
        refreshBuffer_def b r setBuffer_def [where st = "sendTo _ _ _ _"])
qed

text \<open>
  Claim C10, as stated: in this situation the session state is unchanged. The handler
  rewrites the phrases and the language of the session's buffer from the request before
  it looks for the phrases (lines 567 and 620 to 625, under the comment ``ALWAYS update
  with latest values''). A session that is recording with the end phrase \<open>stop\<close> and the
  language \<open>hi\<close> stored receives a fragment whose request carries the end phrase
  \<open>magic stop\<close> and no language; the transcript contains the end phrase and no start
  phrase, and \<open>isMagicActive\<close> is \<open>"false"\<close>. The fragment is dropped, and the buffer now
  holds the end phrase \<open>magic stop\<close> and the language \<open>en\<close>.
\<close>

theorem end_phrase_while_inactive_rewrites_buffer:
  "map_option isRecording (audioChunks staleState ''s1'') = Some True
   \<and> firstTranscript (transcribeFile exampleServices truncatedWav ''en'' False)
       = ''That was all magic stop''
   \<and> hasKeyword ''That was all magic stop'' (reqEndKeyword (exampleRequest truncatedWav ''false''))
   \<and> \<not> hasKeyword ''That was all magic stop''
         (reqStartKeyword (exampleRequest truncatedWav ''false''))
   \<and> reqIsMagicActive (exampleRequest truncatedWav ''false'') = Some ''false''
   \<and> fst (processAudioChunk exampleServices (exampleRequest truncatedWav ''false'') staleState)
       = Ok ''That was all magic stop'' False None
   \<and> map_option endKeyword (audioChunks staleState ''s1'') = Some (Some ''stop'')
   \<and> map_option endKeyword (audioChunks (snd (processAudioChunk exampleServices
         (exampleRequest truncatedWav ''false'') staleState)) ''s1'') = Some (Some ''magic stop'')
   \<and> map_option language (audioChunks staleState ''s1'') = Some ''hi''
   \<and> map_option language (audioChunks (snd (processAudioChunk exampleServices
         (exampleRequest truncatedWav ''false'') staleState)) ''s1'') = Some ''en''
   \<and> audioChunks (snd (processAudioChunk exampleServices (exampleRequest truncatedWav ''false'')
         staleState)) \<noteq> audioChunks staleState"
proof -
  let ?req = "exampleRequest truncatedWav ''false''"
  let ?st' = "snd (processAudioChunk exampleServices ?req staleState)"
  have f: "reqFile ?req = Some truncatedWav"
    and a: "reqIsMagicActive ?req = Some ''false''"
    and i: "reqSessionId ?req = ''s1''"
    and l: "withDefault (reqLanguage ?req) ''en'' = ''en''"
    by (simp_all add: exampleRequest_def withDefault_def)
  have ne: "truncatedWav \<noteq> sampleWav"
    by (simp add: truncatedWav_def sampleWav_def)
  have t: "firstTranscript (transcribeFile exampleServices truncatedWav ''en'' False)
           = ''That was all magic stop''"
    by (simp add: exampleServices_def heard_def firstTranscript_def orEmpty_def ne)
  have e: "hasKeyword ''That was all magic stop'' (reqEndKeyword ?req)"
    by code_simp
  have s: "\<not> hasKeyword ''That was all magic stop'' (reqStartKeyword ?req)"
    by code_simp
  have b: "audioChunks staleState (reqSessionId ?req) = Some staleBuffer"
    unfolding i by (simp add: staleState_def setBuffer_def)
  have r: "isRecording staleBuffer"
    by (simp add: staleBuffer_def)
  have e': "hasKeyword (firstTranscript (transcribeFile exampleServices truncatedWav
             (withDefault (reqLanguage ?req) ''en'') False)) (reqEndKeyword ?req)"
    unfolding l t by (rule e)
  have s': "\<not> hasKeyword (firstTranscript (transcribeFile exampleServices truncatedWav
             (withDefault (reqLanguage ?req) ''en'') False)) (reqStartKeyword ?req)"
    unfolding l t by (rule s)
  note eff = inactive_end_effects [OF f b r e' s' a, unfolded l t i]
  from eff have 1: "fst (processAudioChunk exampleServices ?req staleState)
      = Ok ''That was all magic stop'' False None"
    by (rule conjunct1)
  from eff have m: "audioChunks ?st'
      = (audioChunks staleState)(''s1'' \<mapsto>
          staleBuffer\<lparr>startKeyword := orElse (reqStartKeyword ?req) (startKeyword staleBuffer),
            endKeyword := orElse (reqEndKeyword ?req) (endKeyword staleBuffer),
            language := orElseStr ''en'' (language staleBuffer)\<rparr>)"
    by (rule conjunct2 [THEN conjunct1])
  have b0: "audioChunks staleState ''s1'' = Some staleBuffer"
    using b unfolding i .
  have k0: "map_option endKeyword (audioChunks staleState ''s1'') = Some (Some ''stop'')"
    and l0: "map_option language (audioChunks staleState ''s1'') = Some ''hi''"
    and r0: "map_option isRecording (audioChunks staleState ''s1'') = Some True"
    unfolding b0 by (simp_all add: staleBuffer_def)
  have k1: "map_option endKeyword (audioChunks ?st' ''s1'') = Some (Some ''magic stop'')"
    unfolding m by (simp add: exampleRequest_def orElse_def truthy_def)
  have l1: "map_option language (audioChunks ?st' ''s1'') = Some ''en''"
    unfolding m by (simp add: orElseStr_def)
  have d: "audioChunks ?st' \<noteq> audioChunks staleState"
  proof
    assume "audioChunks ?st' = audioChunks staleState"
    then have "map_option language (audioChunks ?st' ''s1'')
               = map_option language (audioChunks staleState ''s1'')"
      by simp
    then show False unfolding l1 l0 by simp
  qed
  from r0 t e s a 1 k0 k1 l0 l1 d show ?thesis by (intro conjI)
qed

text \<open>
  Claim C10, amended. A fragment submitted while the session is recording, whose
  transcript contains the end phrase, with \<open>isMagicActive\<close> equal to \<open>"false"\<close> and no
  start phrase in it, is dropped: the fragment sequence and the recording flag are as
  before, no pipeline run is started, the response reports no keyword, and the only
  message sent is the live transcript for the performer. Of the session's buffer only
  the phrases and the language are rewritten, from the request's non-empty fields, as
  for every submission; where the request carries the session's own phrases and
  language, the table of buffers is as it was.
\<close>

theorem end_phrase_while_inactive_is_dropped:
  assumes f: "reqFile req = Some audioBuffer"
    and b: "audioChunks st (reqSessionId req) = Some b"
    and r: "isRecording b"
    and e: "hasKeyword (firstTranscript (transcribeFile sv audioBuffer
                (withDefault (reqLanguage req) ''en'') False)) (reqEndKeyword req)"
    and s: "\<not> hasKeyword (firstTranscript (transcribeFile sv audioBuffer
                (withDefault (reqLanguage req) ''en'') False)) (reqStartKeyword req)"
    and a: "reqIsMagicActive req = Some ''false''"
  shows "(orElse (reqStartKeyword req) (startKeyword b) = startKeyword b
          \<and> orElse (reqEndKeyword req) (endKeyword b) = endKeyword b
          \<and> orElseStr (withDefault (reqLanguage req) ''en'') (language b) = language b
          \<longrightarrow> audioChunks (snd (processAudioChunk sv req st)) = audioChunks st)
         \<and> fst (processAudioChunk sv req st)
           = Ok (firstTranscript (transcribeFile sv audioBuffer
                   (withDefault (reqLanguage req) ''en'') False)) False None
         \<and> audioChunks (snd (processAudioChunk sv req st))
           = (audioChunks st)(reqSessionId req \<mapsto>
               b\<lparr>startKeyword := orElse (reqStartKeyword req) (startKeyword b),
                 endKeyword := orElse (reqEndKeyword req) (endKeyword b),
                 language := orElseStr (withDefault (reqLanguage req) ''en'') (language b)\<rparr>)
         \<and> started (snd (processAudioChunk sv req st)) = started st
         \<and> sent (snd (processAudioChunk sv req st))
           = sent (sendTo magician (reqSessionId req)
                (Transcript (firstTranscript (transcribeFile sv audioBuffer
                   (withDefault (reqLanguage req) ''en'') False))) st)
         \<and> sessionTopics (snd (processAudioChunk sv req st)) = sessionTopics st
         \<and> map_option chunks (audioChunks (snd (processAudioChunk sv req st)) (reqSessionId req))
           = Some (chunks b)
         \<and> map_option isRecording (audioChunks (snd (processAudioChunk sv req st)) (reqSessionId req))
           = Some True"
proof -
  note eff = inactive_end_effects [OF f b r e s a]
  have x: "orElse (reqStartKeyword req) (startKeyword b) = startKeyword b
          \<and> orElse (reqEndKeyword req) (endKeyword b) = endKeyword b
          \<and> orElseStr (withDefault (reqLanguage req) ''en'') (language b) = language b
          \<longrightarrow> audioChunks (snd (processAudioChunk sv req st)) = audioChunks st"
  proof
    assume p: "orElse (reqStartKeyword req) (startKeyword b) = startKeyword b
          \<and> orElse (reqEndKeyword req) (endKeyword b) = endKeyword b
          \<and> orElseStr (withDefault (reqLanguage req) ''en'') (language b) = language b"
    from eff have m: "audioChunks (snd (processAudioChunk sv req st))
           = (audioChunks st)(reqSessionId req \<mapsto>
               b\<lparr>startKeyword := orElse (reqStartKeyword req) (startKeyword b),
                 endKeyword := orElse (reqEndKeyword req) (endKeyword b),
                 language := orElseStr (withDefault (reqLanguage req) ''en'') (language b)\<rparr>)"
      by blast
    from p have "b\<lparr>startKeyword := orElse (reqStartKeyword req) (startKeyword b),
                 endKeyword := orElse (reqEndKeyword req) (endKeyword b),
                 language := orElseStr (withDefault (reqLanguage req) ''en'') (language b)\<rparr> = b"
      by simp
    with m b show "audioChunks (snd (processAudioChunk sv req st)) = audioChunks st"
      by (simp add: map_upd_triv)
  qed
  from x eff show ?thesis by (rule conjI)
qed

theorem end_phrase_while_inactive_is_dropped_witness:
  "fst (processAudioChunk exampleServices (exampleRequest truncatedWav ''false'') recordingState)
     = Ok ''That was all magic stop'' False None
   \<and> map_option chunks (audioChunks (snd (processAudioChunk exampleServices
          (exampleRequest truncatedWav ''false'') recordingState)) ''s1'') = Some [sampleWav]
   \<and> map_option isRecording (audioChunks (snd (processAudioChunk exampleServices
          (exampleRequest truncatedWav ''false'') recordingState)) ''s1'') = Some True
   \<and> started (snd (processAudioChunk exampleServices (exampleRequest truncatedWav ''false'')
          recordingState)) = []
   \<and> audioChunks (snd (processAudioChunk exampleServices (exampleRequest truncatedWav ''false'')
          recordingState)) = audioChunks recordingState"
proof -
  let ?req = "exampleRequest truncatedWav ''false''"
  have f: "reqFile ?req = Some truncatedWav"
    and a: "reqIsMagicActive ?req = Some ''false''"
    and i: "reqSessionId ?req = ''s1''"
    by (simp_all add: exampleRequest_def)
  have ne: "truncatedWav \<noteq> sampleWav"
    by (simp add: truncatedWav_def sampleWav_def)
  have t: "firstTranscript (transcribeFile exampleServices truncatedWav
             (withDefault (reqLanguage ?req) ''en'') False) = ''That was all magic stop''"
    by (simp add: exampleServices_def heard_def firstTranscript_def orEmpty_def ne)
  have e: "hasKeyword (firstTranscript (transcribeFile exampleServices truncatedWav
             (withDefault (reqLanguage ?req) ''en'') False)) (reqEndKeyword ?req)"
    unfolding t by code_simp
  have s: "\<not> hasKeyword (firstTranscript (transcribeFile exampleServices truncatedWav
             (withDefault (reqLanguage ?req) ''en'') False)) (reqStartKeyword ?req)"
    unfolding t by code_simp
  have b: "audioChunks recordingState (reqSessionId ?req) = Some recordingBuffer"
    unfolding i by (simp add: recordingState_def setBuffer_def)
  have r: "isRecording recordingBuffer"
    and c: "chunks recordingBuffer = [sampleWav]"
    by (simp_all add: recordingBuffer_def)
  have st0: "started recordingState = []"
    by (simp add: recordingState_def setBuffer_def initialState_def)
  note th = end_phrase_while_inactive_is_dropped [OF f b r e s a, unfolded t i st0 c]
  from th have 1: "fst (processAudioChunk exampleServices ?req recordingState)
      = Ok ''That was all magic stop'' False None"
    by blast
  have p: "orElse (reqStartKeyword ?req) (startKeyword recordingBuffer) = startKeyword recordingBuffer
      \<and> orElse (reqEndKeyword ?req) (endKeyword recordingBuffer) = endKeyword recordingBuffer
      \<and> orElseStr (withDefault (reqLanguage ?req) ''en'') (language recordingBuffer)
          = language recordingBuffer"
    by (simp add: exampleRequest_def recordingBuffer_def orElse_def orElseStr_def truthy_def
        withDefault_def)
  from th [THEN conjunct1] p
  have 5: "audioChunks (snd (processAudioChunk exampleServices ?req recordingState))
      = audioChunks recordingState"
    by (rule mp)
  from th have 2: "started (snd (processAudioChunk exampleServices ?req recordingState)) = []"
    by blast
  from th have 3: "map_option chunks (audioChunks (snd (processAudioChunk exampleServices ?req
      recordingState)) ''s1'') = Some [sampleWav]"
    by blast
  from th have 4: "map_option isRecording (audioChunks (snd (processAudioChunk exampleServices
      ?req recordingState)) ''s1'') = Some True"
    by blast
  from 1 3 4 2 5 show ?thesis by (intro conjI)
qed

text \<open>
  Claim C5. A \<open>manual_end\<close> message forces the session to Idle, hands a non-empty fragment
  sequence to the pipeline and clears it, and reports an error on an empty one. The
  branch for the non-empty sequence sets \<open>isRecording\<close> to false; the branch for the
  empty sequence reads the flag to choose the error code and leaves it as it is. After a
  manual start and a manual end with nothing captured, the error \<open>no_chunks_captured\<close>
  is sent and the session is still recording.
\<close>

theorem manualEnd_empty_leaves_recording:
  "map_option isRecording
     (audioChunks (manualEnd exampleEnd (manualStart exampleStart initialState)) ''s1'') = Some True
   \<and> sent (manualEnd exampleEnd (manualStart exampleStart initialState)) =
     [(''s1'', magician, KeywordDetected ''start'' ''[Manual Start]''),
      (''s1'', magician, NoRecordingError ''no_chunks_captured''
         ''No audio captured during magic. Recording was too short or silent.'')]"
  by (simp add: manualEnd_def manualStart_def exampleEnd_def exampleStart_def initialState_def
      openSession_def Let_def withDefault_def initBuffer_def setBuffer_def sendTo_def connOf_def)

section \<open>Properties of the Trigger Detector\<close>

text \<open>
  Claim C7. With both phrases found in valid order and not adjacent, the text returned is
  the part of the original text strictly between the two phrase occurrences, trimmed and
  cleaned of a leading single letter. The source finds the two indices in the normalized
  text and cuts the original text at these numbers: as soon as the original text holds
  punctuation that the normalizer strips, the cut is displaced. In the text below the
  part between the phrases is \<open>. Apple pie,\<close> and the source returns \<open>ord. Apple\<close>.
\<close>

theorem extractTextBetweenKeywords_displaced:
  "extractTextBetweenKeywords ''Well... Magic word. Apple pie, magic stop.''
     (Some ''magic word'') (Some ''magic stop'') = ''ord. Apple''"
  by code_simp

section \<open>Properties of the Text Normalizer\<close>

lemma toLowerChar_idem: "toLowerChar (toLowerChar c) = toLowerChar c"
  by (auto simp: toLowerChar_def Let_def)

lemma isSpace_toLowerChar: "isSpace (toLowerChar c) = isSpace c"
  by (auto simp: toLowerChar_def isSpace_def Let_def)

lemma isPunct_code:
  "isPunct c = (let n = (of_char c :: nat) in n \<in> {46,44,47,35,33,36,37,94,38,42,59,58,123,125,61,45,95,96,126,40,41})"
  by (cases c) (simp add: isPunct_def Let_def)

lemma isPunct_toLowerChar: "isPunct (toLowerChar c) = isPunct c"
  by (auto simp: isPunct_code toLowerChar_def Let_def)

lemma space_not_punct: "isSpace c \<Longrightarrow> \<not> isPunct c"
  by (auto simp: isPunct_code isSpace_def Let_def)

lemma space_lowfix: "isSpace c \<Longrightarrow> toLowerChar c = c"
  by (auto simp: toLowerChar_def isSpace_def Let_def)

lemma isSpace_blank: "isSpace (CHR '' '')"
  by (simp add: isSpace_def)

lemma set_normalizeSpaces: "set (normalizeSpaces s) \<subseteq> set s \<union> {CHR '' ''}"
  by (induction s rule: normalizeSpaces.induct) (auto dest: set_dropWhileD)

lemma normalizeSpaces_Nil_iff: "normalizeSpaces s = [] \<longleftrightarrow> s = []"
  by (cases s) auto

lemma noDouble_normalizeSpaces: "noDouble (normalizeSpaces s)"
proof (induction s rule: normalizeSpaces.induct)
  case 1
  then show ?case by simp
next
  case (2 c cs)
  show ?case
  proof (cases "isSpace c")
    case True
    let ?r = "dropWhile isSpace cs"
    have hd: "?r \<noteq> [] \<Longrightarrow> \<not> isSpace (hd ?r)"
      using hd_dropWhile by blast
    have "normalizeSpaces ?r = [] \<or> (\<exists>d t. normalizeSpaces ?r = d # t \<and> \<not> isSpace d)"
    proof (cases ?r)
      case Nil
      then have "normalizeSpaces ?r = []" by (simp only: normalizeSpaces.simps)
      then show ?thesis ..
    next
      case (Cons d t)
      with hd have "\<not> isSpace d" by simp
      with Cons show ?thesis by simp
    qed
    with True 2 show ?thesis by (auto split: list.splits)
  next
    case False
    with 2 show ?thesis by (auto split: list.splits)
  qed
qed

lemma normalizeSpaces_noDouble: "noDouble s \<Longrightarrow> normalizeSpaces s = s"
proof (induction s rule: normalizeSpaces.induct)
  case 1
  then show ?case by simp
next
  case (2 c cs)
  then show ?case by (cases cs) (auto)
qed

lemma noDouble_dropWhile: "noDouble s \<Longrightarrow> noDouble (dropWhile P s)"
  by (induction s) auto

lemma trimEnd_Cons_nonspace: "\<not> isSpace c \<Longrightarrow> trimEnd (c # cs) = c # trimEnd cs"
  by (simp add: Let_def)

lemma set_trimEnd: "set (trimEnd s) \<subseteq> set s"
  by (induction s) (auto simp: Let_def)

lemma noDouble_Cons:
  "noDouble (c # r) = ((r \<noteq> [] \<longrightarrow> \<not> (isSpace c \<and> isSpace (hd r))) \<and> noDouble r)"
  by (cases r) simp_all

lemma trimEnd_cases: "trimEnd (c # cs) = [] \<or> trimEnd (c # cs) = c # trimEnd cs"
  by (simp add: Let_def)

lemma trimEnd_hd: "trimEnd s \<noteq> [] \<Longrightarrow> s \<noteq> [] \<and> hd (trimEnd s) = hd s"
  using trimEnd_cases by (cases s) fastforce+

lemma noDouble_trimEnd: "noDouble s \<Longrightarrow> noDouble (trimEnd s)"
proof (induction s)
  case Nil
  then show ?case by simp
next
  case (Cons c cs)
  from Cons.prems have nd: "noDouble cs" and adj: "cs \<noteq> [] \<longrightarrow> \<not> (isSpace c \<and> isSpace (hd cs))"
    unfolding noDouble_Cons by blast+
  from trimEnd_cases [of c cs] show ?case
  proof
    assume "trimEnd (c # cs) = []"
    then show ?thesis by (simp only: noDouble.simps)
  next
    assume e: "trimEnd (c # cs) = c # trimEnd cs"
    have "trimEnd cs \<noteq> [] \<longrightarrow> \<not> (isSpace c \<and> isSpace (hd (trimEnd cs)))"
      using trimEnd_hd [of cs] adj by metis
    with Cons.IH [OF nd] show ?thesis
      unfolding e noDouble_Cons by blast
  qed
qed

lemma trimEnd_idem: "trimEnd (trimEnd s) = trimEnd s"
  by (induction s) (auto simp: Let_def)

lemma trimStart_nonspace: "s = [] \<or> \<not> isSpace (hd s) \<Longrightarrow> trimStart s = s"
  by (cases s) (auto simp: trimStart_def)

lemma trimStart_head: "trimStart s = [] \<or> \<not> isSpace (hd (trimStart s))"
  unfolding trimStart_def using hd_dropWhile by blast

lemma trimEnd_head: "s = [] \<or> \<not> isSpace (hd s) \<Longrightarrow> trimEnd s = [] \<or> \<not> isSpace (hd (trimEnd s))"
  by (cases s) (auto simp: Let_def)

lemma trim_idem: "trim (trim s) = trim s"
  unfolding trim_def
  using trimStart_nonspace [OF trimEnd_head [OF trimStart_head [of s]]]
  by (simp add: trimEnd_idem)

lemma set_trim: "set (trim s) \<subseteq> set s"
  unfolding trim_def trimStart_def
  using set_trimEnd [of "dropWhile isSpace s"] set_dropWhileD [of _ isSpace s] by blast

lemma noDouble_trim: "noDouble s \<Longrightarrow> noDouble (trim s)"
  unfolding trim_def trimStart_def by (intro noDouble_trimEnd noDouble_dropWhile)

lemma normalizeText_chars:
  assumes "c \<in> set (normalizeText x)"
  shows "toLowerChar c = c \<and> \<not> isPunct c"
proof -
  from assms have "c \<in> set (normalizeSpaces (removePunctuation (toLowerCase x)))"
    unfolding normalizeText_def using set_trim by blast
  then have "c \<in> set (removePunctuation (toLowerCase x)) \<or> c = CHR '' ''"
    using set_normalizeSpaces by blast
  then show ?thesis
  proof
    assume "c \<in> set (removePunctuation (toLowerCase x))"
    then show ?thesis
      by (auto simp: removePunctuation_def toLowerCase_def toLowerChar_idem)
  next
    assume "c = CHR '' ''"
    then show ?thesis
      using space_not_punct [OF isSpace_blank] space_lowfix [OF isSpace_blank] by simp
  qed
qed

lemma normalizeText_fixed:
  assumes chars: "\<forall>c\<in>set s. toLowerChar c = c \<and> \<not> isPunct c"
    and nd: "noDouble s" and tr: "trim s = s"
  shows "normalizeText s = s"
proof -
  have "toLowerCase s = s"
    unfolding toLowerCase_def using chars by (simp add: map_idI)
  moreover have "removePunctuation s = s"
    unfolding removePunctuation_def using chars by simp
  ultimately show ?thesis
    unfolding normalizeText_def using nd tr by (simp add: normalizeSpaces_noDouble)
qed

lemma normalizeText_idem: "normalizeText (normalizeText x) = normalizeText x"
proof (rule normalizeText_fixed)
  show "\<forall>c\<in>set (normalizeText x). toLowerChar c = c \<and> \<not> isPunct c"
    using normalizeText_chars by blast
  show "noDouble (normalizeText x)"
    unfolding normalizeText_def by (intro noDouble_trim noDouble_normalizeSpaces)
  show "trim (normalizeText x) = normalizeText x"
    unfolding normalizeText_def by (rule trim_idem)
qed

lemma normalizeText_punct_only:
  assumes "\<forall>c\<in>set y. isPunct c \<or> isSpace c"
  shows "normalizeText y = []"
proof -
  have "\<forall>c\<in>set (toLowerCase y). isPunct c \<or> isSpace c"
    using assms by (auto simp: toLowerCase_def isPunct_toLowerChar isSpace_toLowerChar)
  then have "\<forall>c\<in>set (removePunctuation (toLowerCase y)). isSpace c"
    by (auto simp: removePunctuation_def)
  then have "\<forall>c\<in>set (normalizeSpaces (removePunctuation (toLowerCase y))). isSpace c"
    using set_normalizeSpaces isSpace_blank by blast
  then have "trimStart (normalizeSpaces (removePunctuation (toLowerCase y))) = []"
    by (simp add: trimStart_def)
  then show ?thesis
    by (simp only: normalizeText_def trim_def trimEnd.simps)
qed

text \<open>
  Claim C8. The normalizer is idempotent: normalizing a normalized string changes nothing.
  An input made only of characters of the stripped punctuation class and of white space
  normalizes to the empty string.
\<close>

theorem normalizeText_idempotent:
  "normalizeText (normalizeText x) = normalizeText x
   \<and> ((\<forall>c\<in>set y. isPunct c \<or> isSpace c) \<longrightarrow> normalizeText y = [])"
  using normalizeText_idem normalizeText_punct_only by blast

theorem normalizeText_idempotent_witness:
  "normalizeText (normalizeText ''  Hello,  World! '') = normalizeText ''  Hello,  World! ''
   \<and> normalizeText ''  Hello,  World! '' = ''hello world''
   \<and> normalizeText '' .,-  (!) '' = []"
proof -
  have h: "\<forall>c\<in>set '' .,-  (!) ''. isPunct c \<or> isSpace c"
    by (simp add: isPunct_def isSpace_def)
  have v: "normalizeText ''  Hello,  World! '' = ''hello world''"
    by code_simp
  from normalizeText_idempotent [of "''  Hello,  World! ''" "'' .,-  (!) ''"]
  have i: "normalizeText (normalizeText ''  Hello,  World! '') = normalizeText ''  Hello,  World! ''"
    and p: "(\<forall>c\<in>set '' .,-  (!) ''. isPunct c \<or> isSpace c) \<longrightarrow> normalizeText '' .,-  (!) '' = []"
    by (rule conjunct1, rule conjunct2)
  from p h have e: "normalizeText '' .,-  (!) '' = []" by (rule mp)
  from i v e show ?thesis by (intro conjI)
qed

section \<open>Properties of the Topic Extractor\<close>

text \<open>
  Claim C9. The weighted frequency strategy returns the highest-scoring word only if that
  word occurs at least two times in the text, and returns nothing when no word does. The
  source adds the cue-phrase bonuses to the occurrence counts and then keeps the entries
  with \<open>count >= 2\<close>, under the comment ``Find words that appear multiple times'': the
  threshold is applied to the score. In \<open>I like pizza\<close> no word occurs twice; \<open>pizza\<close>
  occurs once, gets the bonus 6 of the cue \<open>I like\<close>, and is returned.
\<close>

theorem extractTopicByFrequency_single_occurrence:
  "frequencyWords ''I like pizza'' = [''like'', ''pizza'']
   \<and> extractTopicByFrequency ''I like pizza'' = Some ''pizza''"
  by code_simp

end
